theory Spec2Isabelle
  imports Main
begin

text \<open>
  A model of \<^verbatim>\<open>server.js\<close>: the job and application stores kept as JSON files, the
  resume upload, the mail notification with its log, and the routes that change them
  (\<^verbatim>\<open>POST /jobs/:id/apply\<close> and the four \<^verbatim>\<open>POST /admin/...\<close> routes). Each route is
  a function from the request and the world (the files on disk, the console, the requests
  sent to the mail API) to the response and the new world. What Node, Express and multer
  do is written out as far as the routes depend on it.
\<close>

section \<open>JavaScript strings and the path module\<close>

text \<open>
  A JavaScript string is modelled as a \<^typ>\<open>string\<close>; one \<^typ>\<open>char\<close> stands for one
  code unit in the Latin-1 range. A value that may be \<open>undefined\<close> (a missing form field,
  an unset environment variable) or \<open>null\<close> is a \<^typ>\<open>string option\<close>, \<open>None\<close> being the
  missing value. Numbers are integers (the ids are \<^verbatim>\<open>Date.now()\<close> timestamps): what
  doubles do beyond them, \<open>Infinity\<close> and \<open>NaN\<close> in a stored record included, is outside
  the model. Paths are POSIX paths.
\<close>

definition truthy :: "string option \<Rightarrow> bool" where
  \<comment> \<open>JavaScript truthiness of a value that is a string or missing: \<open>undefined\<close>,
      \<open>null\<close> and the empty string are falsy.\<close>
  "truthy v = (case v of None \<Rightarrow> False | Some s \<Rightarrow> s \<noteq> [])"

definition or_empty :: "string option \<Rightarrow> string" where
  \<comment> \<open>\<open>v || ''\<close>\<close>
  "or_empty v = (case v of None \<Rightarrow> [] | Some s \<Rightarrow> s)"

definition toLowerCase_char :: "char \<Rightarrow> char" where
  "toLowerCase_char c =
     (let n = (of_char c :: nat)
      in if (65 \<le> n \<and> n \<le> 90) \<or> (192 \<le> n \<and> n \<le> 222 \<and> n \<noteq> 215)
         then char_of (n + 32) else c)"

definition toLowerCase :: "string \<Rightarrow> string" where
  "toLowerCase s = map toLowerCase_char s"

definition basename_part :: "string \<Rightarrow> string" where
  \<comment> \<open>the last component of a POSIX path, trailing slashes ignored\<close>
  "basename_part p =
     rev (takeWhile (\<lambda>c. c \<noteq> CHR ''/'') (dropWhile (\<lambda>c. c = CHR ''/'') (rev p)))"

definition extname :: "string \<Rightarrow> string" where
  \<comment> \<open>\<open>path.extname\<close> (POSIX): from the last dot of the last path component to its end;
      empty when there is no dot, when nothing precedes that dot in the component, and
      for the component \<open>..\<close>.\<close>
  "extname p =
     (let base = basename_part p;
          ext = CHR ''.'' # rev (takeWhile (\<lambda>c. c \<noteq> CHR ''.'') (rev base));
          stem = rev (tl (dropWhile (\<lambda>c. c \<noteq> CHR ''.'') (rev base)))
      in if CHR ''.'' \<notin> set base then []
         else if stem = [] then []
         else if base = ''..'' then []
         else ext)"

section \<open>Resume upload filter\<close>

definition MIN_RESUME_BYTES :: nat where
  "MIN_RESUME_BYTES = 50 * 1024"

definition MAX_RESUME_BYTES :: nat where
  "MAX_RESUME_BYTES = 5 * 1024 * 1024"

definition allowedMime :: "string list" where
  "allowedMime =
     [''application/pdf'',
      ''application/msword'',
      ''application/vnd.openxmlformats-officedocument.wordprocessingml.document'']"

definition allowedExt :: "string list" where
  "allowedExt = [''.pdf'', ''.doc'', ''.docx'']"

record upload_file =
  originalname :: string
  mimetype :: string
  content :: string

definition invalid_type_msg :: string where
  "invalid_type_msg = ''Invalid file type. Only PDF, DOC and DOCX are allowed''"

definition fileFilter :: "upload_file \<Rightarrow> string + bool" where
  \<comment> \<open>\<open>Inr True\<close> is \<open>cb(null, true)\<close>, \<open>Inl msg\<close> is \<open>cb(new Error(msg))\<close>\<close>
  "fileFilter file =
     (let ext = toLowerCase (extname (originalname file))
      in if ext \<in> set allowedExt \<and> mimetype file \<in> set allowedMime then Inr True
         else if ext \<in> set allowedExt then Inr True
         else Inl invalid_type_msg)"

section \<open>JSON text\<close>

text \<open>
  The stores are files of JSON text, so \<^verbatim>\<open>JSON.stringify(value, null, gap)\<close> and
  \<^verbatim>\<open>JSON.parse\<close> are modelled on text. \<open>stringify gap ind\<close> prints a value the way
  JavaScript does: with \<open>gap = 0\<close> on one line, otherwise every element and member on a
  line of its own, indented by \<open>gap\<close> more spaces than its parent, and a space after each
  colon. Integers are printed in decimal (as JavaScript does below \<open>10\<^sup>2\<^sup>1\<close>). The parser
  accepts JSON text over the same values: white space between tokens, the escapes of
  strings, objects with their members in order. A number with a fraction or an exponent,
  and an escape beyond Latin-1, are refused as outside the model.
\<close>

datatype json = JNull | JBool bool | JNum int | JStr string
  | JArr "json list" | JObj "(string \<times> json) list"

definition dquote :: char where "dquote = CHR 0x22"
definition backslash :: char where "backslash = CHR 0x5C"
definition newline :: char where "newline = CHR 0x0A"

definition digit_char :: "nat \<Rightarrow> char" where
  "digit_char d = char_of (48 + d)"

fun show_nat :: "nat \<Rightarrow> string" where
  "show_nat n = (if n < 10 then [digit_char n] else show_nat (n div 10) @ [digit_char (n mod 10)])"

declare show_nat.simps [simp del]

definition show_int :: "int \<Rightarrow> string" where
  "show_int i = (if i < 0 then CHR ''-'' # show_nat (nat (- i)) else show_nat (nat i))"

definition hex_char :: "nat \<Rightarrow> char" where
  "hex_char d = (if d < 10 then char_of (48 + d) else char_of (87 + d))"

definition escape_char :: "char \<Rightarrow> string" where
  "escape_char c =
     (let n = (of_char c :: nat)
      in if n = 0x22 then [backslash, dquote]
         else if n = 0x5C then [backslash, backslash]
         else if n = 0x08 then [backslash, CHR ''b'']
         else if n = 0x09 then [backslash, CHR ''t'']
         else if n = 0x0A then [backslash, CHR ''n'']
         else if n = 0x0C then [backslash, CHR ''f'']
         else if n = 0x0D then [backslash, CHR ''r'']
         else if n < 0x20 then [backslash, CHR ''u'', CHR ''0'', CHR ''0'', hex_char (n div 16), hex_char (n mod 16)]
         else [c])"

definition quote :: "string \<Rightarrow> string" where
  "quote s = dquote # concat (map escape_char s) @ [dquote]"

definition nl :: "nat \<Rightarrow> nat \<Rightarrow> string" where
  "nl gap ind = (if gap = 0 then [] else newline # replicate ind (CHR '' ''))"

definition colon :: "nat \<Rightarrow> string" where
  "colon gap = (if gap = 0 then '':'' else '': '')"

fun stringify :: "nat \<Rightarrow> nat \<Rightarrow> json \<Rightarrow> string"
and stringify_elems :: "nat \<Rightarrow> nat \<Rightarrow> json list \<Rightarrow> string"
and stringify_members :: "nat \<Rightarrow> nat \<Rightarrow> (string \<times> json) list \<Rightarrow> string" where
  "stringify gap ind JNull = ''null''"
| "stringify gap ind (JBool b) = (if b then ''true'' else ''false'')"
| "stringify gap ind (JNum i) = show_int i"
| "stringify gap ind (JStr s) = quote s"
| "stringify gap ind (JArr []) = ''[]''"
| "stringify gap ind (JArr (x # xs)) =
     ''['' @ stringify_elems gap (ind + gap) (x # xs) @ nl gap ind @ '']''"
| "stringify gap ind (JObj []) = ''{}''"
| "stringify gap ind (JObj (m # ms)) =
     ''{'' @ stringify_members gap (ind + gap) (m # ms) @ nl gap ind @ ''}''"
| "stringify_elems gap ind [] = []"
| "stringify_elems gap ind [x] = nl gap ind @ stringify gap ind x"
| "stringify_elems gap ind (x # y # ys) =
     nl gap ind @ stringify gap ind x @ '','' @ stringify_elems gap ind (y # ys)"
| "stringify_members gap ind [] = []"
| "stringify_members gap ind [(k, v)] = nl gap ind @ quote k @ colon gap @ stringify gap ind v"
| "stringify_members gap ind ((k, v) # m # ms) =
     nl gap ind @ quote k @ colon gap @ stringify gap ind v @ '','' @ stringify_members gap ind (m # ms)"


text \<open>
  The parser is a recursive descent over the text. Its first argument bounds the depth of
  the recursion; \<open>JSON_parse\<close> starts it with the length of the text, which is enough for
  every text the printer produces (\<open>JSON_parse_stringify\<close> below).
\<close>

definition is_ws :: "char \<Rightarrow> bool" where
  "is_ws c = (c = CHR '' '' \<or> c = CHR 0x09 \<or> c = CHR 0x0A \<or> c = CHR 0x0D)"

definition skip_ws :: "string \<Rightarrow> string" where
  "skip_ws s = dropWhile is_ws s"

definition is_digit :: "char \<Rightarrow> bool" where
  "is_digit c = (48 \<le> (of_char c :: nat) \<and> (of_char c :: nat) \<le> 57)"

definition digit_val :: "char \<Rightarrow> nat" where
  "digit_val c = of_char c - 48"

definition parse_nat :: "string \<Rightarrow> (nat \<times> string) option" where
  "parse_nat s =
     (let ds = takeWhile is_digit s; rest = dropWhile is_digit s
      in if ds = [] then None
         else if 1 < length ds \<and> hd ds = CHR ''0'' then None
         else if rest \<noteq> [] \<and> hd rest \<in> {CHR ''.'', CHR ''e'', CHR ''E''} then None
         else Some (foldl (\<lambda>a c. 10 * a + digit_val c) 0 ds, rest))"

definition parse_number :: "string \<Rightarrow> (json \<times> string) option" where
  "parse_number s =
     (case s of
        [] \<Rightarrow> None
      | c # cs \<Rightarrow>
          if c = CHR ''-''
          then map_option (\<lambda>(n, r). (JNum (- int n), r)) (parse_nat cs)
          else map_option (\<lambda>(n, r). (JNum (int n), r)) (parse_nat s))"

definition hex_val :: "char \<Rightarrow> nat option" where
  "hex_val c =
     (let n = (of_char c :: nat)
      in if 48 \<le> n \<and> n \<le> 57 then Some (n - 48)
         else if 97 \<le> n \<and> n \<le> 102 then Some (n - 87)
         else if 65 \<le> n \<and> n \<le> 70 then Some (n - 55)
         else None)"

definition hex4 :: "char \<Rightarrow> char \<Rightarrow> char \<Rightarrow> char \<Rightarrow> char option" where
  "hex4 a b c d =
     (case (hex_val a, hex_val b, hex_val c, hex_val d) of
        (Some x, Some y, Some z, Some w) \<Rightarrow>
          (let n = ((x * 16 + y) * 16 + z) * 16 + w
           in if n < 256 then Some (char_of n) else None)
      | _ \<Rightarrow> None)"

definition unescape :: "char \<Rightarrow> char option" where
  "unescape e =
     (if e = dquote then Some dquote
      else if e = backslash then Some backslash
      else if e = CHR ''/'' then Some (CHR ''/'')
      else if e = CHR ''b'' then Some (CHR 0x08)
      else if e = CHR ''f'' then Some (CHR 0x0C)
      else if e = CHR ''n'' then Some (CHR 0x0A)
      else if e = CHR ''r'' then Some (CHR 0x0D)
      else if e = CHR ''t'' then Some (CHR 0x09)
      else None)"

definition cons_fst :: "'a \<Rightarrow> ('a list \<times> 'b) option \<Rightarrow> ('a list \<times> 'b) option" where
  "cons_fst x r = map_option (\<lambda>(xs, rest). (x # xs, rest)) r"

fun parse_string_body :: "string \<Rightarrow> (string \<times> string) option" where
  "parse_string_body [] = None"
| "parse_string_body (c # cs) =
     (if c = dquote then Some ([], cs)
      else if c = backslash then
        (case cs of
           [] \<Rightarrow> None
         | e # cs' \<Rightarrow>
             if e = CHR ''u'' then
               (case cs' of
                  h1 # h2 # h3 # h4 # rest \<Rightarrow>
                    (case hex4 h1 h2 h3 h4 of
                       None \<Rightarrow> None
                     | Some ch \<Rightarrow> cons_fst ch (parse_string_body rest))
                | _ \<Rightarrow> None)
             else
               (case unescape e of
                  None \<Rightarrow> None
                | Some ch \<Rightarrow> cons_fst ch (parse_string_body cs')))
      else if (of_char c :: nat) < 0x20 then None
      else cons_fst c (parse_string_body cs))"

fun parse_value :: "nat \<Rightarrow> string \<Rightarrow> (json \<times> string) option"
and parse_elems :: "nat \<Rightarrow> string \<Rightarrow> (json list \<times> string) option"
and parse_members :: "nat \<Rightarrow> string \<Rightarrow> ((string \<times> json) list \<times> string) option" where
  "parse_value 0 s = None"
| "parse_value (Suc n) s =
     (case skip_ws s of
        [] \<Rightarrow> None
      | c # cs \<Rightarrow>
          if c = CHR ''['' then
            (case skip_ws cs of
               [] \<Rightarrow> None
             | d # ds \<Rightarrow>
                 if d = CHR '']'' then Some (JArr [], ds)
                 else map_option (\<lambda>(xs, r). (JArr xs, r)) (parse_elems n cs))
          else if c = CHR ''{'' then
            (case skip_ws cs of
               [] \<Rightarrow> None
             | d # ds \<Rightarrow>
                 if d = CHR ''}'' then Some (JObj [], ds)
                 else map_option (\<lambda>(ms, r). (JObj ms, r)) (parse_members n cs))
          else if c = dquote then
            map_option (\<lambda>(str, r). (JStr str, r)) (parse_string_body cs)
          else if take 4 (c # cs) = ''true'' then Some (JBool True, drop 4 (c # cs))
          else if take 5 (c # cs) = ''false'' then Some (JBool False, drop 5 (c # cs))
          else if take 4 (c # cs) = ''null'' then Some (JNull, drop 4 (c # cs))
          else parse_number (c # cs))"
| "parse_elems 0 s = None"
| "parse_elems (Suc n) s =
     (case parse_value n s of
        None \<Rightarrow> None
      | Some (v, r) \<Rightarrow>
          (case skip_ws r of
             [] \<Rightarrow> None
           | d # ds \<Rightarrow>
               if d = CHR '','' then cons_fst v (parse_elems n ds)
               else if d = CHR '']'' then Some ([v], ds)
               else None))"
| "parse_members 0 s = None"
| "parse_members (Suc n) s =
     (case skip_ws s of
        [] \<Rightarrow> None
      | q # cs \<Rightarrow>
          if q \<noteq> dquote then None
          else
            (case parse_string_body cs of
               None \<Rightarrow> None
             | Some (k, r) \<Rightarrow>
                 (case skip_ws r of
                    [] \<Rightarrow> None
                  | c # r' \<Rightarrow>
                      if c \<noteq> CHR '':'' then None
                      else
                        (case parse_value n r' of
                           None \<Rightarrow> None
                         | Some (v, r'') \<Rightarrow>
                             (case skip_ws r'' of
                                [] \<Rightarrow> None
                              | d # ds \<Rightarrow>
                                  if d = CHR '','' then cons_fst (k, v) (parse_members n ds)
                                  else if d = CHR ''}'' then Some ([(k, v)], ds)
                                  else None)))))"

definition JSON_parse :: "string \<Rightarrow> json option" where
  "JSON_parse s =
     (case parse_value (length s) s of
        None \<Rightarrow> None
      | Some (v, rest) \<Rightarrow> if skip_ws rest = [] then Some v else None)"



text \<open>
  For the proofs about the parser: the depth of recursion a value needs, and three shapes
  of text (white space only; the start of a printed value; what may follow a value).
\<close>

fun need :: "json \<Rightarrow> nat"
and need_elems :: "json list \<Rightarrow> nat"
and need_members :: "(string \<times> json) list \<Rightarrow> nat" where
  "need (JArr xs) = Suc (need_elems xs)"
| "need (JObj ms) = Suc (need_members ms)"
| "need JNull = 1"
| "need (JBool b) = 1"
| "need (JNum i) = 1"
| "need (JStr s) = 1"
| "need_elems [] = 0"
| "need_elems (x # xs) = Suc (max (need x) (need_elems xs))"
| "need_members [] = 0"
| "need_members ((k, v) # ms) = Suc (max (need v) (need_members ms))"


definition all_ws :: "string \<Rightarrow> bool" where
  "all_ws s = (\<forall>c \<in> set s. is_ws c)"

definition starts_value :: "string \<Rightarrow> bool" where
  "starts_value s = (case s of [] \<Rightarrow> False
     | c # _ \<Rightarrow> \<not> is_ws c \<and> c \<noteq> CHR '']'' \<and> c \<noteq> CHR ''}'' \<and> c \<noteq> CHR '','')"

definition delim :: "string \<Rightarrow> bool" where
  "delim rest = (case rest of [] \<Rightarrow> True
     | c # _ \<Rightarrow> c = CHR '','' \<or> c = CHR '']'' \<or> c = CHR ''}'' \<or> is_ws c)"

section \<open>More of the JavaScript runtime\<close>

definition js_space :: "char \<Rightarrow> bool" where
  \<comment> \<open>the characters \<open>\s\<close> matches, and \<open>parseInt\<close> skips, in the Latin-1 range\<close>
  "js_space c = ((of_char c :: nat) \<in> {0x09, 0x0A, 0x0B, 0x0C, 0x0D, 0x20, 0xA0})"

definition js_String :: "int \<Rightarrow> string" where
  \<comment> \<open>\<open>String(n)\<close> for an integer \<open>n\<close>\<close>
  "js_String n = show_int n"

definition template_str :: "string option \<Rightarrow> string" where
  \<comment> \<open>a value interpolated in a template literal: \<open>undefined\<close> prints as such\<close>
  "template_str v = (case v of None \<Rightarrow> ''undefined'' | Some s \<Rightarrow> s)"

function collapse_ws :: "string \<Rightarrow> string" where
  \<comment> \<open>\<open>s.replace(/\s+/g, '_')\<close>\<close>
  "collapse_ws [] = []"
| "collapse_ws (c # cs) =
     (if js_space c then CHR ''_'' # collapse_ws (dropWhile js_space cs)
      else c # collapse_ws cs)"
  by pat_completeness auto
termination
  by (relation "measure length") (auto simp: length_dropWhile_le intro: le_imp_less_Suc)

definition parseInt10 :: "string \<Rightarrow> int option" where
  \<comment> \<open>\<open>parseInt(s, 10)\<close>; \<open>None\<close> is \<open>NaN\<close>\<close>
  "parseInt10 s =
     (let t = dropWhile js_space s;
          neg = (t \<noteq> [] \<and> hd t = CHR ''-'');
          u = (if t \<noteq> [] \<and> (hd t = CHR ''-'' \<or> hd t = CHR ''+'') then tl t else t);
          ds = takeWhile is_digit u;
          n = int (foldl (\<lambda>a c. 10 * a + digit_val c) 0 ds)
      in if ds = [] then None else Some (if neg then - n else n))"

definition or_int :: "int option \<Rightarrow> int \<Rightarrow> int" where
  \<comment> \<open>\<open>n || d\<close> for a number: \<open>NaN\<close> and \<open>0\<close> are falsy\<close>
  "or_int n d = (case n of None \<Rightarrow> d | Some k \<Rightarrow> if k = 0 then d else k)"

definition or_str :: "string option \<Rightarrow> string \<Rightarrow> string" where
  \<comment> \<open>\<open>v || d\<close> for a string\<close>
  "or_str v d = (if truthy v then the v else d)"

definition emailRe_test :: "string \<Rightarrow> bool" where
  \<comment> \<open>\<open>/^[^\s@]+@[^\s@]+\.[^\s@]+$/.test(s)\<close>\<close>
  "emailRe_test s =
     (let ok = (\<lambda>c. \<not> js_space c \<and> c \<noteq> CHR ''@'');
          a = takeWhile ok s;
          r = dropWhile ok s
      in a \<noteq> [] \<and> r \<noteq> [] \<and> hd r = CHR ''@'' \<and> list_all ok (tl r)
         \<and> CHR ''.'' \<in> set (butlast (tl (tl r))))"

definition phoneRe_test :: "string \<Rightarrow> bool" where
  \<comment> \<open>\<open>/^[0-9+\-\s]{7,20}$/.test(s)\<close>\<close>
  "phoneRe_test s =
     (7 \<le> length s \<and> length s \<le> 20
      \<and> list_all (\<lambda>c. is_digit c \<or> c = CHR ''+'' \<or> c = CHR ''-'' \<or> js_space c) s)"

section \<open>Data model\<close>

text \<open>
  A job and an application, with the fields the routes write. The title, location and
  description of a job come from the admin form unchecked, so they may be \<open>undefined\<close>;
  \<^verbatim>\<open>JSON.stringify\<close> then leaves the property out. An application's resume is a
  reference such as \<^verbatim>\<open>/uploads/1700000000000-cv.pdf\<close>, or \<open>null\<close>.
\<close>

record job =
  job_id :: int
  title :: "string option"
  location :: "string option"
  description :: "string option"
  openings :: int
  experience :: int
  postedAt :: string

record application =
  app_id :: int
  jobId :: int
  name :: string
  email :: string
  phone :: string
  cover :: string
  resume :: "string option"
  appliedAt :: string

definition opt_member :: "string \<Rightarrow> string option \<Rightarrow> (string \<times> json) list" where
  \<comment> \<open>\<open>JSON.stringify\<close> leaves out a property whose value is \<open>undefined\<close>\<close>
  "opt_member k v = (case v of None \<Rightarrow> [] | Some s \<Rightarrow> [(k, JStr s)])"

definition job_to_json :: "job \<Rightarrow> json" where
  "job_to_json j =
     JObj ([(''id'', JNum (job_id j))]
           @ opt_member ''title'' (title j)
           @ opt_member ''location'' (location j)
           @ opt_member ''description'' (description j)
           @ [(''openings'', JNum (openings j)),
              (''experience'', JNum (experience j)),
              (''postedAt'', JStr (postedAt j))])"

definition application_to_json :: "application \<Rightarrow> json" where
  "application_to_json a =
     JObj [(''id'', JNum (app_id a)),
           (''jobId'', JNum (jobId a)),
           (''name'', JStr (name a)),
           (''email'', JStr (email a)),
           (''phone'', JStr (phone a)),
           (''cover'', JStr (cover a)),
           (''resume'', (case resume a of None \<Rightarrow> JNull | Some r \<Rightarrow> JStr r)),
           (''appliedAt'', JStr (appliedAt a))]"

text \<open>
  Reading a record back from parsed JSON. A store file that parses but does not hold an
  array of such records is outside the data model; the model reads it as empty, like a
  file that cannot be read or parsed.
\<close>

definition get_prop :: "(string \<times> json) list \<Rightarrow> string \<Rightarrow> json option" where
  \<comment> \<open>property lookup in a parsed object; of a repeated key \<open>JSON.parse\<close> keeps the last\<close>
  "get_prop ms k = map_of (rev ms) k"

definition num_prop :: "(string \<times> json) list \<Rightarrow> string \<Rightarrow> int option" where
  "num_prop ms k = (case get_prop ms k of Some (JNum n) \<Rightarrow> Some n | _ \<Rightarrow> None)"

definition str_prop :: "(string \<times> json) list \<Rightarrow> string \<Rightarrow> string option" where
  "str_prop ms k = (case get_prop ms k of Some (JStr s) \<Rightarrow> Some s | _ \<Rightarrow> None)"

definition opt_str_prop :: "(string \<times> json) list \<Rightarrow> string \<Rightarrow> string option option" where
  \<comment> \<open>a string, \<open>null\<close> or no property at all; anything else is outside the data model\<close>
  "opt_str_prop ms k =
     (case get_prop ms k of
        None \<Rightarrow> Some None
      | Some JNull \<Rightarrow> Some None
      | Some (JStr s) \<Rightarrow> Some (Some s)
      | Some _ \<Rightarrow> None)"

definition job_of_json :: "json \<Rightarrow> job option" where
  "job_of_json v =
     (case v of
        JObj ms \<Rightarrow>
          (case (num_prop ms ''id'', opt_str_prop ms ''title'', opt_str_prop ms ''location'',
                 opt_str_prop ms ''description'', num_prop ms ''openings'',
                 num_prop ms ''experience'', str_prop ms ''postedAt'') of
             (Some i, Some t, Some l, Some d, Some ops, Some ex, Some p) \<Rightarrow>
               Some \<lparr>job_id = i, title = t, location = l, description = d,
                     openings = ops, experience = ex, postedAt = p\<rparr>
           | _ \<Rightarrow> None)
      | _ \<Rightarrow> None)"

definition application_of_json :: "json \<Rightarrow> application option" where
  "application_of_json v =
     (case v of
        JObj ms \<Rightarrow>
          (case (num_prop ms ''id'', num_prop ms ''jobId'', str_prop ms ''name'',
                 str_prop ms ''email'', str_prop ms ''phone'', str_prop ms ''cover'',
                 opt_str_prop ms ''resume'', str_prop ms ''appliedAt'') of
             (Some i, Some j, Some n, Some e, Some p, Some c, Some r, Some t) \<Rightarrow>
               Some \<lparr>app_id = i, jobId = j, name = n, email = e, phone = p, cover = c,
                     resume = r, appliedAt = t\<rparr>
           | _ \<Rightarrow> None)
      | _ \<Rightarrow> None)"

fun those_map :: "('a \<Rightarrow> 'b option) \<Rightarrow> 'a list \<Rightarrow> 'b list option" where
  "those_map f [] = Some []"
| "those_map f (x # xs) =
     (case f x of
        None \<Rightarrow> None
      | Some y \<Rightarrow> (case those_map f xs of None \<Rightarrow> None | Some ys \<Rightarrow> Some (y # ys)))"

definition list_of_json :: "(json \<Rightarrow> 'a option) \<Rightarrow> json \<Rightarrow> 'a list option" where
  "list_of_json f v = (case v of JArr xs \<Rightarrow> those_map f xs | _ \<Rightarrow> None)"

section \<open>Configuration and the world\<close>

text \<open>
  The module-level constants read from the environment, and the directory of the script,
  are a \<open>config\<close>. The world is what a route can change: the files, as a map from paths
  to contents; the console; and the requests sent to the mail API. Reading a file that
  is not there fails, as \<^verbatim>\<open>readFileSync\<close> and \<^verbatim>\<open>statSync\<close> do; writing,
  appending and unlinking succeed, so the \<^verbatim>\<open>catch\<close> blocks the source puts around
  them for a failing disk are not entered. The body of a request to the mail API is kept
  as the object handed to \<^verbatim>\<open>JSON.stringify\<close>.
\<close>

record config =
  dirname :: string
  EMAILJS_SERVICE_ID :: "string option"
  EMAILJS_USER_ID :: "string option"
  EMAILJS_TEMPLATE_CONFIRM :: "string option"
  EMAILJS_TEMPLATE_REJECT :: "string option"
  SMTP_USER :: "string option"

definition mailerConfigured :: "config \<Rightarrow> bool" where
  "mailerConfigured cfg =
     (truthy (EMAILJS_SERVICE_ID cfg) \<and> truthy (EMAILJS_USER_ID cfg)
      \<and> truthy (EMAILJS_TEMPLATE_CONFIRM cfg) \<and> truthy (EMAILJS_TEMPLATE_REJECT cfg))"

definition COMPANY_EMAIL :: "config \<Rightarrow> string" where
  "COMPANY_EMAIL cfg = or_str (SMTP_USER cfg) ''contact@anjanideepa.example''"

definition EMAILJS_URL :: string where
  "EMAILJS_URL = ''https://api.emailjs.com/api/v1.0/email/send''"

definition path_join :: "string \<Rightarrow> string \<Rightarrow> string" where
  \<comment> \<open>\<open>path.join(a, b)\<close> (POSIX) for normalised segments\<close>
  "path_join a b = (if b = [] then a else a @ ''/'' @ b)"

definition uploadsDir :: "config \<Rightarrow> string" where
  "uploadsDir cfg = path_join (dirname cfg) ''uploads''"

definition MAIL_LOG :: "config \<Rightarrow> string" where
  "MAIL_LOG cfg = path_join (path_join (dirname cfg) ''data'') ''email-log.jsonl''"

definition JOBS_FILE :: "config \<Rightarrow> string" where
  "JOBS_FILE cfg = path_join (path_join (dirname cfg) ''data'') ''jobs.json''"

definition APPS_FILE :: "config \<Rightarrow> string" where
  "APPS_FILE cfg = path_join (path_join (dirname cfg) ''data'') ''applications.json''"

type_synonym template_params = "(string \<times> string option) list"

record email_request =
  url :: string
  service_id :: "string option"
  template_id :: "string option"
  user_id :: "string option"
  template_params :: template_params

datatype console_arg = CStr string | CParams template_params

datatype console_level = Log | Error

record world =
  fs :: "string \<rightharpoonup> string"
  console :: "(console_level \<times> console_arg list) list"
  net :: "email_request list"

definition console_log :: "console_arg list \<Rightarrow> world \<Rightarrow> world" where
  "console_log args w = w\<lparr>console := console w @ [(Log, args)]\<rparr>"

definition console_error :: "console_arg list \<Rightarrow> world \<Rightarrow> world" where
  "console_error args w = w\<lparr>console := console w @ [(Error, args)]\<rparr>"

definition existsSync :: "string \<Rightarrow> world \<Rightarrow> bool" where
  "existsSync p w = (fs w p \<noteq> None)"

definition unlinkSync :: "string \<Rightarrow> world \<Rightarrow> world" where
  "unlinkSync p w = w\<lparr>fs := (fs w)(p := None)\<rparr>"

definition writeFileSync :: "string \<Rightarrow> string \<Rightarrow> world \<Rightarrow> world" where
  "writeFileSync p txt w = w\<lparr>fs := (fs w)(p \<mapsto> txt)\<rparr>"

definition appendFileSync :: "string \<Rightarrow> string \<Rightarrow> world \<Rightarrow> world" where
  "appendFileSync p txt w =
     w\<lparr>fs := (fs w)(p \<mapsto> (case fs w p of None \<Rightarrow> txt | Some old \<Rightarrow> old @ txt))\<rparr>"

section \<open>Mail log\<close>

record mail_entry =
  mail_to :: string
  mail_subject :: string
  mail_sent :: bool
  mail_note :: "string option"
  mail_error :: "string option"

definition mail_line :: "string \<Rightarrow> mail_entry \<Rightarrow> string" where
  \<comment> \<open>\<open>JSON.stringify(Object.assign({ timestamp }, entry)) + '\n'\<close>\<close>
  "mail_line ts e =
     stringify 0 0
       (JObj ([(''timestamp'', JStr ts),
               (''to'', JStr (mail_to e)),
               (''subject'', JStr (mail_subject e)),
               (''sent'', JBool (mail_sent e))]
              @ opt_member ''note'' (mail_note e)
              @ opt_member ''error'' (mail_error e)))
     @ [newline]"

definition logMailAttempt :: "config \<Rightarrow> string \<Rightarrow> mail_entry \<Rightarrow> world \<Rightarrow> world" where
  "logMailAttempt cfg ts e w = appendFileSync (MAIL_LOG cfg) (mail_line ts e) w"

section \<open>The two stores\<close>

definition read_store :: "(json \<Rightarrow> 'a option) \<Rightarrow> string \<Rightarrow> world \<Rightarrow> 'a list" where
  \<comment> \<open>\<open>try { return JSON.parse(fs.readFileSync(file, 'utf8')) } catch (e) { return [] }\<close>\<close>
  "read_store dec file w =
     (case fs w file of
        None \<Rightarrow> []
      | Some raw \<Rightarrow>
          (case JSON_parse raw of
             None \<Rightarrow> []
           | Some v \<Rightarrow> (case list_of_json dec v of None \<Rightarrow> [] | Some xs \<Rightarrow> xs)))"

definition readJobs :: "config \<Rightarrow> world \<Rightarrow> job list" where
  "readJobs cfg w = read_store job_of_json (JOBS_FILE cfg) w"

definition writeJobs :: "config \<Rightarrow> job list \<Rightarrow> world \<Rightarrow> world" where
  "writeJobs cfg jobs w =
     writeFileSync (JOBS_FILE cfg) (stringify 2 0 (JArr (map job_to_json jobs))) w"

definition readApplications :: "config \<Rightarrow> world \<Rightarrow> application list" where
  "readApplications cfg w = read_store application_of_json (APPS_FILE cfg) w"

definition writeApplications :: "config \<Rightarrow> application list \<Rightarrow> world \<Rightarrow> world" where
  "writeApplications cfg apps w =
     writeFileSync (APPS_FILE cfg) (stringify 2 0 (JArr (map application_to_json apps))) w"

section \<open>Sending mail\<close>

text \<open>
  What \<^verbatim>\<open>fetch\<close> does is an input: the API answers with success, with another status
  and a body, or the call itself fails. A thrown error is represented by what
  \<^verbatim>\<open>String(err)\<close> gives, \<^verbatim>\<open>Error: \<close> followed by the message for the errors the
  source creates.
\<close>

datatype fetch_result = FetchOk | FetchStatus nat string | FetchFail string

definition sendEmailJS ::
  "config \<Rightarrow> string option \<Rightarrow> template_params \<Rightarrow> fetch_result \<Rightarrow> world \<Rightarrow> (string + bool) \<times> world" where
  \<comment> \<open>\<open>Inl e\<close> is a thrown error, \<open>Inr True\<close> the returned \<open>true\<close>\<close>
  "sendEmailJS cfg templateId templateParams fr w =
     (if \<not> mailerConfigured cfg then (Inl ''Error: EmailJS not configured.'', w)
      else
        let payload = \<lparr>url = EMAILJS_URL,
                       service_id = EMAILJS_SERVICE_ID cfg,
                       template_id = templateId,
                       user_id = EMAILJS_USER_ID cfg,
                       template_params = templateParams\<rparr>;
            w1 = w\<lparr>net := net w @ [payload]\<rparr>
        in case fr of
             FetchOk \<Rightarrow> (Inr True, console_log [CStr ''EmailJS Response: Success''] w1)
           | FetchStatus st txt \<Rightarrow>
               (let msg = ''Error: EmailJS API failed with status '' @ show_nat st @ '': '' @ txt;
                    w2 = console_error
                           [CStr (''EmailJS Response Error ('' @ show_nat st @ ''): '' @ txt)] w1
                in (Inl msg, console_error [CStr ''EmailJS Fetch Error:'', CStr msg] w2))
           | FetchFail e \<Rightarrow> (Inl e, console_error [CStr ''EmailJS Fetch Error:'', CStr e] w1))"

section \<open>Resume upload\<close>

text \<open>
  The part of a multipart form that carries the resume is an \<open>upload_file\<close>: the name the
  browser gave, the declared content type and the bytes. \<open>req.file\<close> is reduced to its
  \<open>path\<close>, the one property the route reads.
\<close>

record req_file =
  file_path :: string

definition storage_filename :: "int \<Rightarrow> upload_file \<Rightarrow> string" where
  \<comment> \<open>\<open>Date.now() + '-' + file.originalname.replace(/\s+/g, '_')\<close>\<close>
  "storage_filename now file = js_String now @ ''-'' @ collapse_ws (originalname file)"

definition upload_single ::
  "config \<Rightarrow> int \<Rightarrow> upload_file option \<Rightarrow> world \<Rightarrow> (string option \<times> req_file option) \<times> world" where
  \<comment> \<open>\<open>upload.single('resume')\<close> with the storage, limit and filter of the source: the error
      passed to the callback, \<open>req.file\<close>, and the disk. Multer asks the filter first and
      does not store a file it refuses; a file over \<open>limits.fileSize\<close> is removed again and
      reported as an error. (Whether a file of exactly the limit passes differs between
      multer versions; it is taken to pass, and no statement below is about that size.)\<close>
  "upload_single cfg now part w =
     (case part of
        None \<Rightarrow> ((None, None), w)
      | Some file \<Rightarrow>
          (case fileFilter file of
             Inl msg \<Rightarrow> ((Some msg, None), w)
           | Inr accept \<Rightarrow>
               if \<not> accept then ((None, None), w)
               else if MAX_RESUME_BYTES < length (content file)
               then ((Some ''File too large'', None), w)
               else
                 let p = path_join (uploadsDir cfg) (storage_filename now file)
                 in ((None, Some \<lparr>file_path = p\<rparr>), writeFileSync p (content file) w)))"

section \<open>Applying to a job\<close>

text \<open>
  The route runs the upload middleware and continues in its callback. A request carries
  the id of the URL, the text fields, the resume part, the clock readings the route takes
  (\<^verbatim>\<open>Date.now()\<close> for the file name and for the id, the two ISO timestamps) and what the
  mail API will answer if it is called.
\<close>

record form =
  form_name :: string
  form_email :: string
  form_phone :: string
  form_cover :: string

record body =
  body_name :: "string option"
  body_email :: "string option"
  body_phone :: "string option"
  body_cover :: "string option"

datatype response =
    Status nat string
  | Redirect string
  | RenderApply job "string option" "form option"
  | RenderApplySuccess job application

record apply_request =
  params_id :: string
  req_body :: body
  resume_part :: "upload_file option"
  upload_now :: int
  submit_now :: int
  submit_iso :: string
  log_iso :: string
  mail_api :: fetch_result

definition remove_upload :: "req_file option \<Rightarrow> world \<Rightarrow> world" where
  \<comment> \<open>\<open>if (req.file && req.file.path && fs.existsSync(req.file.path)) fs.unlinkSync(req.file.path)\<close>\<close>
  "remove_upload file w =
     (case file of
        None \<Rightarrow> w
      | Some f \<Rightarrow>
          if file_path f \<noteq> [] \<and> existsSync (file_path f) w then unlinkSync (file_path f) w
          else w)"

definition confirm_templateParams :: "config \<Rightarrow> job \<Rightarrow> string \<Rightarrow> string \<Rightarrow> string \<Rightarrow> string \<Rightarrow> template_params" where
  "confirm_templateParams cfg job nm em ph cv =
     [(''applicant_name'', Some nm),
      (''applicant_email'', Some em),
      (''job_title'', title job),
      (''job_location'', location job),
      (''phone_number'', Some ph),
      (''cover_letter'', Some cv),
      (''company_email'', Some (COMPANY_EMAIL cfg)),
      (''email'', Some em)]"

definition notify_confirmation :: "config \<Rightarrow> apply_request \<Rightarrow> job \<Rightarrow> application \<Rightarrow> world \<Rightarrow> world" where
  "notify_confirmation cfg rq job a w =
     (let templateParams = confirm_templateParams cfg job (name a) (email a) (phone a) (cover a);
          subject = ''Application Received: '' @ template_str (title job)
      in if mailerConfigured cfg then
           (case sendEmailJS cfg (EMAILJS_TEMPLATE_CONFIRM cfg) templateParams (mail_api rq) w of
              (Inr ok, w1) \<Rightarrow>
                logMailAttempt cfg (log_iso rq)
                  \<lparr>mail_to = email a, mail_subject = subject, mail_sent = True,
                   mail_note = Some ''EmailJS'', mail_error = None\<rparr>
                  (console_log [CStr ''Confirmation email sent to'', CStr (email a),
                                CStr ''via EmailJS''] w1)
            | (Inl err, w1) \<Rightarrow>
                logMailAttempt cfg (log_iso rq)
                  \<lparr>mail_to = email a, mail_subject = subject, mail_sent = False,
                   mail_note = None, mail_error = Some err\<rparr>
                  (console_error [CStr ''Error sending email via EmailJS API'', CStr err] w1))
         else
           logMailAttempt cfg (log_iso rq)
             \<lparr>mail_to = email a, mail_subject = subject, mail_sent = False,
              mail_note = Some ''EmailJS not configured'', mail_error = None\<rparr>
             (console_log [CStr ''Email (not sent) would be:'', CParams templateParams] w))"

definition apply_callback ::
  "config \<Rightarrow> apply_request \<Rightarrow> string option \<Rightarrow> req_file option \<Rightarrow> world \<Rightarrow> response \<times> world" where
  \<comment> \<open>the callback given to \<open>upload.single('resume')\<close>: \<open>err\<close> is the upload error's message\<close>
  "apply_callback cfg rq err file w =
     (case find (\<lambda>j. js_String (job_id j) = params_id rq) (readJobs cfg w) of
        None \<Rightarrow> (Status 404 ''Job not found'', w)
      | Some job \<Rightarrow>
          let nm = body_name (req_body rq);
              em = body_email (req_body rq);
              ph = body_phone (req_body rq);
              cv = body_cover (req_body rq);
              form = \<lparr>form_name = or_empty nm, form_email = or_empty em,
                      form_phone = or_empty ph, form_cover = or_empty cv\<rparr>
          in (case err of
               Some msg \<Rightarrow>
                 (RenderApply job (Some (if msg \<noteq> [] then msg else ''File upload error'')) (Some form),
                  remove_upload file w)
             | None \<Rightarrow>
                 if \<not> truthy nm \<or> \<not> truthy em \<or> \<not> truthy ph \<or> \<not> truthy cv then
                   (RenderApply job (Some ''All fields are required'') (Some form),
                    remove_upload file w)
                 else if \<not> emailRe_test (the em) then
                   (RenderApply job (Some ''Please enter a valid email address'') (Some form),
                    remove_upload file w)
                 else if \<not> phoneRe_test (the ph) then
                   (RenderApply job (Some ''Please enter a valid phone number'') (Some form),
                    remove_upload file w)
                 else
                   (case file of
                      None \<Rightarrow>
                        (RenderApply job
                           (Some ''Resume is required and must be PDF/DOC/DOCX within size limits'')
                           (Some form), w)
                    | Some f \<Rightarrow>
                        (case fs w (file_path f) of
                           None \<Rightarrow>
                             (RenderApply job (Some ''Could not process resume file'') (Some form), w)
                         | Some data \<Rightarrow>
                             if length data < MIN_RESUME_BYTES then
                               (RenderApply job (Some ''Resume file is too small (min 50 KB)'')
                                  (Some form),
                                unlinkSync (file_path f) w)
                             else
                               let apps = readApplications cfg w;
                                   a = \<lparr>app_id = submit_now rq, jobId = job_id job,
                                        name = the nm, email = the em, phone = the ph,
                                        cover = the cv,
                                        resume = Some (''/uploads/'' @ basename_part (file_path f)),
                                        appliedAt = submit_iso rq\<rparr>;
                                   w1 = writeApplications cfg (apps @ [a]) w
                               in (RenderApplySuccess job a, notify_confirmation cfg rq job a w1)))))"

definition post_jobs_apply :: "config \<Rightarrow> apply_request \<Rightarrow> world \<Rightarrow> response \<times> world" where
  \<comment> \<open>\<open>POST /jobs/:id/apply\<close>\<close>
  "post_jobs_apply cfg rq w =
     (case upload_single cfg (upload_now rq) (resume_part rq) w of
        ((err, file), w1) \<Rightarrow> apply_callback cfg rq err file w1)"

section \<open>Admin operations\<close>

record job_body =
  jb_title :: "string option"
  jb_location :: "string option"
  jb_description :: "string option"
  jb_openings :: "string option"
  jb_experience :: "string option"

definition post_admin_jobs ::
  "config \<Rightarrow> string option \<Rightarrow> job_body \<Rightarrow> int \<Rightarrow> string \<Rightarrow> world \<Rightarrow> response \<times> world" where
  \<comment> \<open>\<open>POST /admin/jobs\<close>; \<open>user\<close> is \<open>req.session.user\<close>\<close>
  "post_admin_jobs cfg user b now ts w =
     (if user = None then (Status 403 ''Forbidden'', w)
      else
        let jobs = readJobs cfg w;
            openingsNum = max 1 (or_int (parseInt10 (or_str (jb_openings b) ''1'')) 1);
            expNum = max 0 (min 50 (or_int (parseInt10 (or_str (jb_experience b) ''0'')) 0));
            j = \<lparr>job_id = now, title = jb_title b, location = jb_location b,
                 description = jb_description b, openings = openingsNum,
                 experience = expNum, postedAt = ts\<rparr>
        in (Redirect ''/admin'', writeJobs cfg (jobs @ [j]) w))"

definition resume_full_path :: "config \<Rightarrow> string \<Rightarrow> string" where
  \<comment> \<open>leading slashes stripped, both separators turned into \<open>path.sep\<close>, joined to \<open>__dirname\<close>\<close>
  "resume_full_path cfg r =
     path_join (dirname cfg)
       (map (\<lambda>c. if c = backslash then CHR ''/'' else c) (dropWhile (\<lambda>c. c = CHR ''/'') r))"

definition remove_resume :: "config \<Rightarrow> string option \<Rightarrow> world \<Rightarrow> world" where
  \<comment> \<open>\<open>if (app.resume) { ...; if (fs.existsSync(full)) fs.unlinkSync(full) }\<close>\<close>
  "remove_resume cfg r w =
     (if truthy r then
        (let full = resume_full_path cfg (the r)
         in if existsSync full w then unlinkSync full w else w)
      else w)"

definition drop_or_keep ::
  "config \<Rightarrow> (application \<Rightarrow> bool) \<Rightarrow> application list \<times> world \<Rightarrow> application \<Rightarrow> application list \<times> world" where
  \<comment> \<open>one round of the \<open>forEach\<close> of the two delete routes\<close>
  "drop_or_keep cfg matches st app =
     (case st of
        (remaining, w) \<Rightarrow>
          if matches app then (remaining, remove_resume cfg (resume app) w)
          else (remaining @ [app], w))"

definition post_admin_jobs_delete ::
  "config \<Rightarrow> string option \<Rightarrow> string \<Rightarrow> world \<Rightarrow> response \<times> world" where
  \<comment> \<open>\<open>POST /admin/jobs/:id/delete\<close>\<close>
  "post_admin_jobs_delete cfg user ident w =
     (if user = None then (Status 403 ''Forbidden'', w)
      else
        let jobs = readJobs cfg w;
            filtered = filter (\<lambda>j. js_String (job_id j) \<noteq> ident) jobs;
            w1 = writeJobs cfg filtered w;
            after = readJobs cfg w1;
            stillExists = list_ex (\<lambda>j. js_String (job_id j) = ident) after
        in if stillExists then
             (Status 500 ''Failed to delete job'',
              console_error [CStr ''Failed to delete job'', CStr ident] w1)
           else
             (case foldl (drop_or_keep cfg (\<lambda>a. js_String (jobId a) = ident)) ([], w1)
                     (readApplications cfg w1) of
                (remaining, w2) \<Rightarrow> (Redirect ''/admin'', writeApplications cfg remaining w2)))"

definition post_admin_applications_delete ::
  "config \<Rightarrow> string option \<Rightarrow> string \<Rightarrow> world \<Rightarrow> response \<times> world" where
  \<comment> \<open>\<open>POST /admin/applications/:id/delete\<close>\<close>
  "post_admin_applications_delete cfg user ident w =
     (if user = None then (Status 403 ''Forbidden'', w)
      else
        (case foldl (drop_or_keep cfg (\<lambda>a. js_String (app_id a) = ident)) ([], w)
                (readApplications cfg w) of
           (remaining, w1) \<Rightarrow> (Redirect ''/admin'', writeApplications cfg remaining w1)))"

fun findIndex :: "('a \<Rightarrow> bool) \<Rightarrow> 'a list \<Rightarrow> nat option" where
  "findIndex P [] = None"
| "findIndex P (x # xs) = (if P x then Some 0 else map_option Suc (findIndex P xs))"

definition filter_index :: "nat \<Rightarrow> 'a list \<Rightarrow> 'a list" where
  \<comment> \<open>\<open>xs.filter((_, index) => index !== i)\<close>\<close>
  "filter_index i xs = map snd (filter (\<lambda>(k, x). k \<noteq> i) (enumerate 0 xs))"

definition reject_templateParams :: "config \<Rightarrow> application \<Rightarrow> string option \<Rightarrow> template_params" where
  "reject_templateParams cfg a jobTitle =
     [(''applicant_name'', Some (name a)),
      (''applicant_email'', Some (email a)),
      (''job_title'', jobTitle),
      (''company_email'', Some (COMPANY_EMAIL cfg)),
      (''email'', Some (email a))]"

definition notify_rejection ::
  "config \<Rightarrow> string \<Rightarrow> fetch_result \<Rightarrow> application \<Rightarrow> string option \<Rightarrow> world \<Rightarrow> world" where
  "notify_rejection cfg ts fr a jobTitle w =
     (let templateParams = reject_templateParams cfg a jobTitle;
          subject = ''Update on Application for '' @ template_str jobTitle
      in if mailerConfigured cfg then
           (case sendEmailJS cfg (EMAILJS_TEMPLATE_REJECT cfg) templateParams fr w of
              (Inr ok, w1) \<Rightarrow>
                logMailAttempt cfg ts
                  \<lparr>mail_to = email a, mail_subject = subject, mail_sent = True,
                   mail_note = Some ''EmailJS Rejection'', mail_error = None\<rparr>
                  (console_log [CStr ''Rejection email sent to'', CStr (email a),
                                CStr ''via EmailJS''] w1)
            | (Inl err, w1) \<Rightarrow>
                logMailAttempt cfg ts
                  \<lparr>mail_to = email a, mail_subject = subject, mail_sent = False,
                   mail_note = Some ''EmailJS Rejection error'', mail_error = None\<rparr>
                  (console_error [CStr ''Error sending rejection email via EmailJS API'',
                                  CStr err] w1))
         else
           logMailAttempt cfg ts
             \<lparr>mail_to = email a, mail_subject = subject, mail_sent = False,
              mail_note = Some ''Rejection - not configured'', mail_error = None\<rparr>
             (console_log [CStr ''Rejection email (not sent, EmailJS not configured) would be:'',
                           CParams templateParams] w))"

definition post_admin_applications_reject ::
  "config \<Rightarrow> string option \<Rightarrow> string \<Rightarrow> string \<Rightarrow> fetch_result \<Rightarrow> world \<Rightarrow> response \<times> world" where
  \<comment> \<open>\<open>POST /admin/applications/:id/reject\<close>\<close>
  "post_admin_applications_reject cfg user ident ts fr w =
     (if user = None then (Status 403 ''Forbidden'', w)
      else
        let apps = readApplications cfg w;
            jobs = readJobs cfg w
        in case findIndex (\<lambda>a. js_String (app_id a) = ident) apps of
             None \<Rightarrow>
               (Redirect ''/admin'',
                console_error [CStr ''Application not found for rejection:'', CStr ident] w)
           | Some appIndex \<Rightarrow>
               let applicationToReject = apps ! appIndex;
                   jobTitle = (case find (\<lambda>j. job_id j = jobId applicationToReject) jobs of
                                 None \<Rightarrow> Some ''a job''
                               | Some j \<Rightarrow> title j);
                   w1 = notify_rejection cfg ts fr applicationToReject jobTitle w;
                   remainingApps = filter_index appIndex apps;
                   w2 = remove_resume cfg (resume applicationToReject) w1;
                   w3 = writeApplications cfg remainingApps w2
               in (Redirect ''/admin'',
                   console_log [CStr ''Application rejected and deleted:'', CStr ident] w3))"

section \<open>Notions used in the statements\<close>

definition resume_target :: "config \<Rightarrow> application \<Rightarrow> string option" where
  \<comment> \<open>the file an application's resume reference resolves to, if it has one\<close>
  "resume_target cfg a =
     (if truthy (resume a) then Some (resume_full_path cfg (the (resume a))) else None)"


definition submitted_application :: "apply_request \<Rightarrow> job \<Rightarrow> req_file \<Rightarrow> application" where
  \<comment> \<open>the record the apply route stores for an accepted submission\<close>
  "submitted_application rq job f =
     \<lparr>app_id = submit_now rq, jobId = job_id job,
      name = the (body_name (req_body rq)), email = the (body_email (req_body rq)),
      phone = the (body_phone (req_body rq)), cover = the (body_cover (req_body rq)),
      resume = Some (''/uploads/'' @ basename_part (file_path f)),
      appliedAt = submit_iso rq\<rparr>"

definition accepted_submission :: "config \<Rightarrow> apply_request \<Rightarrow> req_file \<Rightarrow> world \<Rightarrow> bool" where
  \<comment> \<open>the upload succeeded and the submission passes every check of the apply route\<close>
  "accepted_submission cfg rq f w =
     (truthy (body_name (req_body rq)) \<and> truthy (body_email (req_body rq))
      \<and> truthy (body_phone (req_body rq)) \<and> truthy (body_cover (req_body rq))
      \<and> emailRe_test (the (body_email (req_body rq)))
      \<and> phoneRe_test (the (body_phone (req_body rq)))
      \<and> (case fs w (file_path f) of None \<Rightarrow> False | Some data \<Rightarrow> MIN_RESUME_BYTES \<le> length data))"

section \<open>A worked example\<close>

text \<open>
  A site in \<^verbatim>\<open>/srv/site\<close>, once without and once with the mail identifiers; a store
  with job 7 and application 9, whose resume of 60000 bytes is in the uploads directory;
  a submission for job 7 with a resume of 60000 bytes, and a resume of 100 bytes.
\<close>

definition example_cfg :: config where
  "example_cfg = \<lparr>dirname = ''/srv/site'', EMAILJS_SERVICE_ID = None, EMAILJS_USER_ID = None,
     EMAILJS_TEMPLATE_CONFIRM = None, EMAILJS_TEMPLATE_REJECT = None, SMTP_USER = None\<rparr>"

definition example_mail_cfg :: config where
  "example_mail_cfg = \<lparr>dirname = ''/srv/site'', EMAILJS_SERVICE_ID = Some ''svc'',
     EMAILJS_USER_ID = Some ''usr'', EMAILJS_TEMPLATE_CONFIRM = Some ''welcome'',
     EMAILJS_TEMPLATE_REJECT = Some ''auto_reply'', SMTP_USER = Some ''hr@example.com''\<rparr>"

definition empty_world :: world where
  "empty_world = \<lparr>fs = Map.empty, console = [], net = []\<rparr>"

definition example_job :: job where
  "example_job = \<lparr>job_id = 7, title = Some ''Welder'', location = Some ''Pune'',
     description = None, openings = 2, experience = 3, postedAt = ''2024-01-01T00:00:00.000Z''\<rparr>"

definition example_application :: application where
  "example_application = \<lparr>app_id = 9, jobId = 7, name = ''Asha'', email = ''asha@example.com'',
     phone = ''9876543210'', cover = ''Hello'', resume = Some ''/uploads/5-cv.pdf'',
     appliedAt = ''2024-01-02T00:00:00.000Z''\<rparr>"

definition example_world :: world where
  "example_world =
     writeApplications example_cfg [example_application]
       (writeJobs example_cfg [example_job]
          (writeFileSync ''/srv/site/uploads/5-cv.pdf'' (replicate 60000 (CHR ''x'')) empty_world))"

definition example_body :: body where
  "example_body = \<lparr>body_name = Some ''Ravi'', body_email = Some ''ravi@example.com'',
     body_phone = Some ''+91 98765 43210'', body_cover = Some ''Hi''\<rparr>"

definition small_resume :: upload_file where
  "small_resume = \<lparr>originalname = ''cv.pdf'', mimetype = ''application/pdf'',
     content = replicate 100 (CHR ''x'')\<rparr>"

definition good_resume :: upload_file where
  "good_resume = \<lparr>originalname = ''my cv.PDF'', mimetype = ''text/plain'',
     content = replicate 60000 (CHR ''x'')\<rparr>"

definition example_request :: apply_request where
  "example_request = \<lparr>params_id = ''7'', req_body = example_body, resume_part = Some good_resume,
     upload_now = 11, submit_now = 12, submit_iso = ''2024-01-03T00:00:00.000Z'',
     log_iso = ''2024-01-03T00:00:01.000Z'', mail_api = FetchOk\<rparr>"

definition big_resume :: upload_file where
  "big_resume = \<lparr>originalname = ''portfolio.docx'', mimetype = ''application/msword'',
     content = replicate 6000000 (CHR ''x'')\<rparr>"

definition example_job_body :: job_body where
  "example_job_body = \<lparr>jb_title = Some ''Fitter'', jb_location = Some ''Pune'',
     jb_description = None, jb_openings = Some ''0'', jb_experience = Some ''77''\<rparr>"

section \<open>Printing and parsing JSON text\<close>

lemma is_digit_digit_char: "d < 10 \<Longrightarrow> is_digit (digit_char d)"
  by (simp add: is_digit_def digit_char_def)

lemma digit_val_digit_char: "d < 10 \<Longrightarrow> digit_val (digit_char d) = d"
  by (simp add: digit_val_def digit_char_def)

lemma show_nat_small: "n < 10 \<Longrightarrow> show_nat n = [digit_char n]"
  by (simp add: show_nat.simps [of n])

lemma show_nat_large: "\<not> n < 10 \<Longrightarrow> show_nat n = show_nat (n div 10) @ [digit_char (n mod 10)]"
  by (simp add: show_nat.simps [of n])

lemma show_nat_digits: "c \<in> set (show_nat n) \<Longrightarrow> is_digit c"
proof (induction n rule: show_nat.induct)
  case (1 n)
  show ?case
  proof (cases "n < 10")
    case True
    with 1 show ?thesis by (simp add: show_nat_small is_digit_digit_char)
  next
    case False
    with 1 show ?thesis
      by (auto simp add: show_nat_large is_digit_digit_char)
  qed
qed

lemma show_nat_nonempty: "show_nat n \<noteq> []"
  by (cases "n < 10") (simp_all add: show_nat_small show_nat_large)

lemma foldl_show_nat: "foldl (\<lambda>a c. 10 * a + digit_val c) 0 (show_nat n) = n"
proof (induction n rule: show_nat.induct)
  case (1 n)
  show ?case
  proof (cases "n < 10")
    case True
    then show ?thesis by (simp add: show_nat_small digit_val_digit_char)
  next
    case False
    with 1 show ?thesis
      by (simp add: show_nat_large digit_val_digit_char)
  qed
qed

lemma digit_char_zero: "d < 10 \<Longrightarrow> (digit_char d = CHR ''0'') = (d = 0)"
proof -
  assume d: "d < 10"
  have "digit_val (digit_char d) = d" using d by (rule digit_val_digit_char)
  moreover have "digit_val (CHR ''0'') = 0" by (simp add: digit_val_def)
  moreover have "digit_char 0 = CHR ''0''" by code_simp
  ultimately show ?thesis by metis
qed

lemma hd_show_nat_zero: "hd (show_nat n) = CHR ''0'' \<Longrightarrow> n = 0"
proof (induction n rule: show_nat.induct)
  case (1 n)
  show ?case
  proof (cases "n < 10")
    case True
    with 1(2) show ?thesis by (simp add: show_nat_small digit_char_zero)
  next
    case False
    with 1(2) have "hd (show_nat (n div 10)) = CHR ''0''"
      by (simp add: show_nat_large show_nat_nonempty)
    with 1(1) False have "n div 10 = 0" by simp
    with False show ?thesis by simp
  qed
qed

lemma show_nat_no_leading_zero:
  "\<not> (1 < length (show_nat n) \<and> hd (show_nat n) = CHR ''0'')"
proof
  assume a: "1 < length (show_nat n) \<and> hd (show_nat n) = CHR ''0''"
  then have "n = 0" by (simp add: hd_show_nat_zero)
  with a show False by (simp add: show_nat_small)
qed

lemma delim_not_digit: "delim (c # cs) \<Longrightarrow> \<not> is_digit c"
  by (auto simp: delim_def is_digit_def is_ws_def)

lemma delim_not_frac: "delim (c # cs) \<Longrightarrow> c \<noteq> CHR ''.'' \<and> c \<noteq> CHR ''e'' \<and> c \<noteq> CHR ''E''"
  by (auto simp: delim_def is_ws_def)

lemma takeWhile_digits:
  "delim rest \<Longrightarrow> takeWhile is_digit (show_nat n @ rest) = show_nat n"
  by (cases rest) (auto simp: show_nat_digits delim_not_digit intro!: takeWhile_eq_all_conv [THEN iffD2])

lemma dropWhile_digits:
  "delim rest \<Longrightarrow> dropWhile is_digit (show_nat n @ rest) = rest"
  by (cases rest) (auto simp: show_nat_digits delim_not_digit)

lemma parse_nat_show_nat:
  assumes "delim rest"
  shows "parse_nat (show_nat n @ rest) = Some (n, rest)"
proof -
  have t: "takeWhile is_digit (show_nat n @ rest) = show_nat n"
    using assms by (rule takeWhile_digits)
  have d: "dropWhile is_digit (show_nat n @ rest) = rest"
    using assms by (rule dropWhile_digits)
  have f: "\<not> (rest \<noteq> [] \<and> hd rest \<in> {CHR ''.'', CHR ''e'', CHR ''E''})"
    using assms delim_not_frac by (cases rest) auto
  show ?thesis
    unfolding parse_nat_def Let_def t d
    using f show_nat_no_leading_zero [of n]
    by (simp add: show_nat_nonempty foldl_show_nat)
qed

lemma hd_show_nat_not_minus: "hd (show_nat n) \<noteq> CHR ''-''"
  using show_nat_digits [of "hd (show_nat n)" n] show_nat_nonempty [of n]
  by (auto simp: is_digit_def)

lemma parse_number_show_int:
  "delim rest \<Longrightarrow> parse_number (show_int i @ rest) = Some (JNum i, rest)"
proof (cases "i < 0")
  case True
  assume "delim rest"
  with True show ?thesis
    by (simp add: parse_number_def show_int_def parse_nat_show_nat)
next
  case False
  assume d: "delim rest"
  obtain c cs where cs: "show_nat (nat i) = c # cs"
    using show_nat_nonempty [of "nat i"] by (cases "show_nat (nat i)") auto
  then have "c \<noteq> CHR ''-''" using hd_show_nat_not_minus [of "nat i"] by simp
  moreover have "parse_nat ((c # cs) @ rest) = Some (nat i, rest)"
    using parse_nat_show_nat [OF d, of "nat i"] cs by simp
  ultimately show ?thesis using False cs
    by (simp add: parse_number_def show_int_def)
qed

lemma hex_val_hex_char: "d < 16 \<Longrightarrow> hex_val (hex_char d) = Some d"
  by (simp add: hex_val_def hex_char_def Let_def)

lemma hex_val_zero: "hex_val (CHR ''0'') = Some 0"
  by (simp add: hex_val_def)

lemma hex4_low:
  "n < 32 \<Longrightarrow> hex4 (CHR ''0'') (CHR ''0'') (hex_char (n div 16)) (hex_char (n mod 16)) = Some (char_of n)"
  by (simp add: hex4_def hex_val_zero hex_val_hex_char)

lemma of_char_dquote: "(of_char dquote :: nat) = 0x22"
  by (simp add: dquote_def)

lemma of_char_backslash: "(of_char backslash :: nat) = 0x5C"
  by (simp add: backslash_def)

lemma char_eq_code: "(c = d) = ((of_char c :: nat) = of_char d)"
  by simp

lemma parse_string_body_escape:
  "parse_string_body (escape_char c @ t) = cons_fst c (parse_string_body t)"
proof -
  define n where "n = (of_char c :: nat)"
  have c: "char_of n = c" by (simp add: n_def)
  have k: "(c = CHR 0x08) = (n = 8)" "(c = CHR 0x09) = (n = 9)" "(c = CHR 0x0A) = (n = 10)"
    "(c = CHR 0x0C) = (n = 12)" "(c = CHR 0x0D) = (n = 13)"
    unfolding n_def by (subst char_eq_code, simp)+
  consider "c = CHR 0x22" | "c = CHR 0x5C" | "c = CHR 0x08" | "c = CHR 0x09" | "c = CHR 0x0A"
    | "c = CHR 0x0C" | "c = CHR 0x0D"
    | "n < 0x20" "n \<notin> {0x08, 0x09, 0x0A, 0x0C, 0x0D}"
    | "\<not> n < 0x20" "c \<noteq> CHR 0x22" "c \<noteq> CHR 0x5C"
    unfolding k by auto
  then show ?thesis
  proof cases
    case 1
    then show ?thesis
      by (simp add: escape_char_def unescape_def dquote_def backslash_def)
  next
    case 2
    then show ?thesis
      by (simp add: escape_char_def unescape_def dquote_def backslash_def)
  next
    case 3
    then show ?thesis
      by (simp add: escape_char_def unescape_def dquote_def backslash_def)
  next
    case 4
    then show ?thesis
      by (simp add: escape_char_def unescape_def dquote_def backslash_def)
  next
    case 5
    then show ?thesis
      by (simp add: escape_char_def unescape_def dquote_def backslash_def)
  next
    case 6
    then show ?thesis
      by (simp add: escape_char_def unescape_def dquote_def backslash_def)
  next
    case 7
    then show ?thesis
      by (simp add: escape_char_def unescape_def dquote_def backslash_def)
  next
    case 8
    then have e: "escape_char c = [backslash, CHR ''u'', CHR ''0'', CHR ''0'', hex_char (n div 16), hex_char (n mod 16)]"
      by (auto simp add: escape_char_def n_def [symmetric])
    show ?thesis
      unfolding e using 8(1) by (simp add: hex4_low c dquote_def backslash_def)
  next
    case 9
    have "n \<noteq> 0x22" using 9(2) unfolding n_def by (subst (asm) char_eq_code) simp
    moreover have "n \<noteq> 0x5C" using 9(3) unfolding n_def by (subst (asm) char_eq_code) simp
    ultimately have e: "escape_char c = [c]"
      using 9(1) by (simp add: escape_char_def n_def [symmetric])
    show ?thesis
      unfolding e using 9 by (simp add: n_def dquote_def backslash_def)
  qed
qed

lemma parse_string_body_quote:
  "parse_string_body (concat (map escape_char s) @ dquote # rest) = Some (s, rest)"
  by (induction s) (simp_all add: parse_string_body_escape cons_fst_def del: parse_string_body.simps, simp)

lemma skip_ws_append: "all_ws ws \<Longrightarrow> skip_ws (ws @ s) = skip_ws s"
  by (simp add: skip_ws_def all_ws_def)

lemma all_ws_nl: "all_ws (nl gap ind)"
  by (simp add: all_ws_def nl_def is_ws_def newline_def)

lemma all_ws_Nil: "all_ws []"
  by (simp add: all_ws_def)

lemma skip_ws_nl: "skip_ws (nl gap ind @ s) = skip_ws s"
  by (simp add: skip_ws_append all_ws_nl)

lemma parse_value_skip: "all_ws ws \<Longrightarrow> parse_value n (ws @ s) = parse_value n s"
  by (cases n) (simp_all add: skip_ws_append)

lemma parse_members_skip: "all_ws ws \<Longrightarrow> parse_members n (ws @ s) = parse_members n s"
  by (cases n) (simp_all add: skip_ws_append)

lemma parse_elems_skip: "all_ws ws \<Longrightarrow> parse_elems n (ws @ s) = parse_elems n s"
  by (cases n) (simp_all add: parse_value_skip)

lemma skip_ws_starts: "starts_value s \<Longrightarrow> skip_ws (s @ t) = s @ t"
  by (cases s) (simp_all add: starts_value_def skip_ws_def)

lemma show_int_first: "\<exists>c cs. show_int i = c # cs \<and> (c = CHR ''-'' \<or> is_digit c)"
proof (cases "i < 0")
  case True
  then show ?thesis by (simp add: show_int_def)
next
  case False
  obtain c cs where cs: "show_nat (nat i) = c # cs"
    using show_nat_nonempty [of "nat i"] by (cases "show_nat (nat i)") auto
  then have "is_digit c" using show_nat_digits [of c "nat i"] by simp
  with cs False show ?thesis by (simp add: show_int_def)
qed

lemma starts_value_stringify: "starts_value (stringify gap ind v)"
proof (cases v)
  case (JNum i)
  obtain c cs where "show_int i = c # cs" "c = CHR ''-'' \<or> is_digit c"
    using show_int_first by blast
  then show ?thesis using JNum
    by (auto simp: starts_value_def is_ws_def is_digit_def)
next
  case (JArr xs)
  then show ?thesis by (cases xs) (simp_all add: starts_value_def is_ws_def)
next
  case (JObj ms)
  then show ?thesis by (cases ms) (simp_all add: starts_value_def is_ws_def)
qed (simp_all add: starts_value_def is_ws_def quote_def dquote_def)

lemma delim_simps:
  "delim []" "delim (CHR '','' # s)" "delim (CHR '']'' # s)" "delim (CHR ''}'' # s)"
  by (simp_all add: delim_def)

lemma delim_ws: "all_ws ws \<Longrightarrow> delim s \<Longrightarrow> delim (ws @ s)"
  by (cases ws) (simp_all add: delim_def all_ws_def)

lemma skip_ws_close: "all_ws ws \<Longrightarrow> \<not> is_ws c \<Longrightarrow> skip_ws (ws @ c # s) = c # s"
  by (simp add: skip_ws_append) (simp add: skip_ws_def)

lemma parse_value_num:
  assumes "delim rest"
  shows "parse_value (Suc n) (show_int i @ rest) = Some (JNum i, rest)"
proof -
  obtain c cs where cs: "show_int i = c # cs" and c: "c = CHR ''-'' \<or> is_digit c"
    using show_int_first by blast
  have nw: "\<not> is_ws c" using c by (auto simp: is_ws_def is_digit_def)
  have sk: "skip_ws (c # cs @ rest) = c # cs @ rest"
    using nw by (simp add: skip_ws_def)
  have c1: "c \<noteq> CHR ''[''" "c \<noteq> CHR ''{''" "c \<noteq> dquote"
    "c \<noteq> CHR ''t''" "c \<noteq> CHR ''f''" "c \<noteq> CHR ''n''"
    using c by (auto simp: is_digit_def dquote_def)
  have "parse_number (c # cs @ rest) = Some (JNum i, rest)"
    using parse_number_show_int [OF assms, of i] cs by simp
  then show ?thesis
    using c1 by (simp add: cs sk)
qed

lemma parse_members_step:
  "parse_members (Suc m) (nl gap ind @ quote k @ colon gap @ body) =
     (case parse_value m body of
        None \<Rightarrow> None
      | Some (v, r) \<Rightarrow>
          (case skip_ws r of
             [] \<Rightarrow> None
           | d # ds \<Rightarrow>
               if d = CHR '','' then cons_fst (k, v) (parse_members m ds)
               else if d = CHR ''}'' then Some ([(k, v)], ds)
               else None))"
proof -
  have "\<exists>w. all_ws w \<and> colon gap = CHR '':'' # w"
    by (simp add: colon_def all_ws_def is_ws_def)
  then obtain w where w: "all_ws w" "colon gap = CHR '':'' # w" by blast
  have s1: "skip_ws (nl gap ind @ quote k @ colon gap @ body)
      = dquote # (concat (map escape_char k) @ dquote # colon gap @ body)"
    by (simp add: skip_ws_nl quote_def) (simp add: skip_ws_def is_ws_def dquote_def)
  have s2: "parse_string_body (concat (map escape_char k) @ dquote # colon gap @ body)
      = Some (k, colon gap @ body)"
    by (rule parse_string_body_quote)
  have s3: "skip_ws (colon gap @ body) = CHR '':'' # w @ body"
    by (simp add: w skip_ws_def is_ws_def)
  have s4: "parse_value m (w @ body) = parse_value m body"
    using w by (simp add: parse_value_skip)
  show ?thesis
    by (simp only: parse_members.simps s1 s2 s3 s4 list.case option.case prod.case if_False
          simp_thms)
qed

lemma parse_roundtrip:
  "\<forall>n rest. need v \<le> n \<longrightarrow> delim rest \<longrightarrow>
      parse_value n (stringify gap ind v @ rest) = Some (v, rest)"
  "\<forall>n ws rest. xs \<noteq> [] \<longrightarrow> need_elems xs \<le> n \<longrightarrow> all_ws ws \<longrightarrow>
      parse_elems n (stringify_elems gap ind xs @ ws @ CHR '']'' # rest) = Some (xs, rest)"
  "\<forall>n ws rest. ms \<noteq> [] \<longrightarrow> need_members ms \<le> n \<longrightarrow> all_ws ws \<longrightarrow>
      parse_members n (stringify_members gap ind ms @ ws @ CHR ''}'' # rest) = Some (ms, rest)"
proof (induction gap ind v and gap ind xs and gap ind ms
    rule: stringify_stringify_elems_stringify_members.induct)
  case (1 gap ind)
  show ?case
  proof (intro allI impI)
    fix n rest assume "need JNull \<le> n"
    then obtain m where "n = Suc m" by (cases n) auto
    then show "parse_value n (stringify gap ind JNull @ rest) = Some (JNull, rest)"
      by (simp add: skip_ws_def is_ws_def dquote_def)
  qed
next
  case (2 gap ind b)
  show ?case
  proof (intro allI impI)
    fix n rest assume "need (JBool b) \<le> n"
    then obtain m where "n = Suc m" by (cases n) auto
    then show "parse_value n (stringify gap ind (JBool b) @ rest) = Some (JBool b, rest)"
      by (simp add: skip_ws_def is_ws_def dquote_def)
  qed
next
  case (3 gap ind i)
  show ?case
  proof (intro allI impI)
    fix n rest assume "need (JNum i) \<le> n" and d: "delim rest"
    then obtain m where "n = Suc m" by (cases n) auto
    then show "parse_value n (stringify gap ind (JNum i) @ rest) = Some (JNum i, rest)"
      using parse_value_num [OF d] by simp
  qed
next
  case (4 gap ind s)
  show ?case
  proof (intro allI impI)
    fix n rest assume "need (JStr s) \<le> n"
    then obtain m where "n = Suc m" by (cases n) auto
    then show "parse_value n (stringify gap ind (JStr s) @ rest) = Some (JStr s, rest)"
      using parse_string_body_quote [of s rest]
      by (simp add: quote_def skip_ws_def is_ws_def dquote_def)
  qed
next
  case (5 gap ind)
  show ?case
  proof (intro allI impI)
    fix n rest assume "need (JArr []) \<le> n"
    then obtain m where "n = Suc m" by (cases n) auto
    then show "parse_value n (stringify gap ind (JArr []) @ rest) = Some (JArr [], rest)"
      by (simp add: skip_ws_def is_ws_def)
  qed
next
  case (6 gap ind x xs)
  show ?case
  proof (intro allI impI)
    fix n rest assume nd: "need (JArr (x # xs)) \<le> n"
    then obtain m where n: "n = Suc m" and m: "need_elems (x # xs) \<le> m" by (cases n) auto
    obtain c cs where cs: "stringify gap (ind + gap) x = c # cs" and c: "c \<noteq> CHR '']''" "\<not> is_ws c"
      using starts_value_stringify [of gap "ind + gap" x]
      by (cases "stringify gap (ind + gap) x") (auto simp: starts_value_def)
    have first: "\<exists>t. skip_ws (stringify_elems gap (ind + gap) (x # xs) @ nl gap ind @ CHR '']'' # rest) = c # t"
      by (cases xs) (simp_all add: skip_ws_nl cs, simp_all add: skip_ws_def c)
    have "parse_elems m (stringify_elems gap (ind + gap) (x # xs) @ nl gap ind @ CHR '']'' # rest)
        = Some (x # xs, rest)"
      using 6 m all_ws_nl by blast
    then show "parse_value n (stringify gap ind (JArr (x # xs)) @ rest) = Some (JArr (x # xs), rest)"
      using first c by (auto simp add: n skip_ws_def is_ws_def)
  qed
next
  case (7 gap ind)
  show ?case
  proof (intro allI impI)
    fix n rest assume "need (JObj []) \<le> n"
    then obtain m where "n = Suc m" by (cases n) auto
    then show "parse_value n (stringify gap ind (JObj []) @ rest) = Some (JObj [], rest)"
      by (simp add: skip_ws_def is_ws_def)
  qed
next
  case (8 gap ind m ms)
  show ?case
  proof (intro allI impI)
    fix n rest assume nd: "need (JObj (m # ms)) \<le> n"
    then obtain k where n: "n = Suc k" and k: "need_members (m # ms) \<le> k" by (cases n) auto
    have first: "\<exists>t. skip_ws (stringify_members gap (ind + gap) (m # ms) @ nl gap ind @ CHR ''}'' # rest) = dquote # t"
      by (cases m; cases ms)
         (simp_all add: skip_ws_nl quote_def, simp_all add: skip_ws_def is_ws_def dquote_def)
    have "parse_members k (stringify_members gap (ind + gap) (m # ms) @ nl gap ind @ CHR ''}'' # rest)
        = Some (m # ms, rest)"
      using 8 k all_ws_nl by blast
    then show "parse_value n (stringify gap ind (JObj (m # ms)) @ rest) = Some (JObj (m # ms), rest)"
      using first by (auto simp add: n skip_ws_def is_ws_def dquote_def)
  qed
next
  case (9 gap ind)
  show ?case by simp
next
  case (10 gap ind x)
  show ?case
  proof (intro allI impI)
    fix n ws rest assume nd: "need_elems [x] \<le> n" and ws: "all_ws ws"
    then obtain m where n: "n = Suc m" and m: "need x \<le> m" by (cases n) auto
    have "parse_value m (stringify gap ind x @ ws @ CHR '']'' # rest) = Some (x, ws @ CHR '']'' # rest)"
      using 10 m ws by (simp add: delim_ws delim_simps)
    then show "parse_elems n (stringify_elems gap ind [x] @ ws @ CHR '']'' # rest) = Some ([x], rest)"
      using ws by (simp add: n parse_value_skip all_ws_nl skip_ws_close is_ws_def)
  qed
next
  case (11 gap ind x y ys)
  show ?case
  proof (intro allI impI)
    fix n ws rest assume nd: "need_elems (x # y # ys) \<le> n" and ws: "all_ws ws"
    then obtain m where n: "n = Suc m" and m: "need x \<le> m" "need_elems (y # ys) \<le> m"
      by (cases n) auto
    let ?tail = "stringify_elems gap ind (y # ys) @ ws @ CHR '']'' # rest"
    have "parse_value m (stringify gap ind x @ CHR '','' # ?tail) = Some (x, CHR '','' # ?tail)"
      using 11(1) m by (simp add: delim_simps)
    moreover have "parse_elems m ?tail = Some (y # ys, rest)"
      using 11(2) m ws by blast
    ultimately show "parse_elems n (stringify_elems gap ind (x # y # ys) @ ws @ CHR '']'' # rest)
        = Some (x # y # ys, rest)"
      by (simp add: n parse_value_skip all_ws_nl skip_ws_def is_ws_def cons_fst_def)
  qed
next
  case (12 gap ind)
  show ?case by simp
next
  case (13 gap ind k v)
  show ?case
  proof (intro allI impI)
    fix n ws rest assume nd: "need_members [(k, v)] \<le> n" and ws: "all_ws ws"
    then obtain m where n: "n = Suc m" and m: "need v \<le> m" by (cases n) auto
    have v: "parse_value m (stringify gap ind v @ ws @ CHR ''}'' # rest) = Some (v, ws @ CHR ''}'' # rest)"
      using 13 m ws by (simp add: delim_ws delim_simps)
    have "parse_members (Suc m) (nl gap ind @ quote k @ colon gap @ stringify gap ind v @ ws @ CHR ''}'' # rest)
        = Some ([(k, v)], rest)"
      unfolding parse_members_step v using ws by (simp add: skip_ws_close is_ws_def)
    then show "parse_members n (stringify_members gap ind [(k, v)] @ ws @ CHR ''}'' # rest) = Some ([(k, v)], rest)"
      by (simp add: n)
  qed
next
  case (14 gap ind k v m ms)
  show ?case
  proof (intro allI impI)
    fix n ws rest assume nd: "need_members ((k, v) # m # ms) \<le> n" and ws: "all_ws ws"
    then obtain j where n: "n = Suc j" and j: "need v \<le> j" "need_members (m # ms) \<le> j"
      by (cases n) auto
    let ?tail = "stringify_members gap ind (m # ms) @ ws @ CHR ''}'' # rest"
    have v: "parse_value j (stringify gap ind v @ CHR '','' # ?tail) = Some (v, CHR '','' # ?tail)"
      using 14(1) j by (simp add: delim_simps)
    have t: "parse_members j ?tail = Some (m # ms, rest)"
      using 14(2) j ws by blast
    have "parse_members (Suc j) (nl gap ind @ quote k @ colon gap @ stringify gap ind v @ CHR '','' # ?tail)
        = Some ((k, v) # m # ms, rest)"
      unfolding parse_members_step v by (simp add: skip_ws_def is_ws_def t cons_fst_def)
    then show "parse_members n (stringify_members gap ind ((k, v) # m # ms) @ ws @ CHR ''}'' # rest)
        = Some ((k, v) # m # ms, rest)"
      by (simp add: n)
  qed
qed

lemma need_le_length:
  "need v \<le> length (stringify gap ind v)"
  "need_elems xs \<le> Suc (length (stringify_elems gap ind xs))"
  "need_members ms \<le> Suc (length (stringify_members gap ind ms))"
proof (induction gap ind v and gap ind xs and gap ind ms
    rule: stringify_stringify_elems_stringify_members.induct)
  case (3 gap ind i)
  obtain c cs where "show_int i = c # cs" using show_int_first by blast
  then show ?case by simp
qed (auto simp: quote_def)

lemma JSON_parse_stringify: "JSON_parse (stringify gap ind v) = Some v"
proof -
  have "parse_value (length (stringify gap ind v)) (stringify gap ind v @ []) = Some (v, [])"
    using parse_roundtrip(1) [of v gap ind] need_le_length(1) [of v gap ind] delim_simps(1)
    by blast
  then show ?thesis by (simp add: JSON_parse_def skip_ws_def)
qed

section \<open>Facts about the stores, the files and the routes\<close>

lemma those_map_roundtrip:
  "(\<And>x. dec (enc x) = Some x) \<Longrightarrow> those_map dec (map enc xs) = Some xs"
  by (induction xs) simp_all

lemma job_of_json_to_json: "job_of_json (job_to_json j) = Some j"
  by (cases j)
     (simp add: job_of_json_def job_to_json_def num_prop_def str_prop_def opt_str_prop_def
        get_prop_def opt_member_def split: option.splits)

lemma application_of_json_to_json: "application_of_json (application_to_json a) = Some a"
  by (cases a)
     (simp add: application_of_json_def application_to_json_def num_prop_def str_prop_def
        opt_str_prop_def get_prop_def split: option.splits)

lemma read_store_cong: "fs w file = fs w' file \<Longrightarrow> read_store dec file w = read_store dec file w'"
  by (simp add: read_store_def)

lemma read_store_written:
  assumes "\<And>x. dec (enc x) = Some x"
      and "fs w file = Some (stringify 2 0 (JArr (map enc xs)))"
  shows "read_store dec file w = xs"
  using assms
  by (simp add: read_store_def JSON_parse_stringify list_of_json_def those_map_roundtrip)

lemma data_paths_distinct:
  "JOBS_FILE cfg \<noteq> APPS_FILE cfg" "APPS_FILE cfg \<noteq> JOBS_FILE cfg"
  "MAIL_LOG cfg \<noteq> APPS_FILE cfg" "APPS_FILE cfg \<noteq> MAIL_LOG cfg"
  "MAIL_LOG cfg \<noteq> JOBS_FILE cfg" "JOBS_FILE cfg \<noteq> MAIL_LOG cfg"
  by (simp_all add: JOBS_FILE_def APPS_FILE_def MAIL_LOG_def path_join_def)

lemma upload_path_not_data:
  "path_join (uploadsDir cfg) fname \<noteq> APPS_FILE cfg"
  "path_join (uploadsDir cfg) fname \<noteq> JOBS_FILE cfg"
  "path_join (uploadsDir cfg) fname \<noteq> MAIL_LOG cfg"
  "path_join (uploadsDir cfg) fname \<noteq> []"
  by (simp_all add: JOBS_FILE_def APPS_FILE_def MAIL_LOG_def uploadsDir_def path_join_def)

lemma fs_simps [simp]:
  "fs (console_log args w) = fs w"
  "fs (console_error args w) = fs w"
  "fs (writeFileSync p txt w) = (fs w)(p \<mapsto> txt)"
  "fs (unlinkSync p w) = (fs w)(p := None)"
  "fs (appendFileSync p txt w) = (fs w)(p \<mapsto> (case fs w p of None \<Rightarrow> txt | Some old \<Rightarrow> old @ txt))"
  by (simp_all add: console_log_def console_error_def writeFileSync_def unlinkSync_def
        appendFileSync_def)

lemma net_simps [simp]:
  "net (console_log args w) = net w"
  "net (console_error args w) = net w"
  "net (writeFileSync p txt w) = net w"
  "net (unlinkSync p w) = net w"
  "net (appendFileSync p txt w) = net w"
  by (simp_all add: console_log_def console_error_def writeFileSync_def unlinkSync_def
        appendFileSync_def)

lemma console_simps [simp]:
  "console (console_log args w) = console w @ [(Log, args)]"
  "console (console_error args w) = console w @ [(Error, args)]"
  "console (writeFileSync p txt w) = console w"
  "console (unlinkSync p w) = console w"
  "console (appendFileSync p txt w) = console w"
  by (simp_all add: console_log_def console_error_def writeFileSync_def unlinkSync_def
        appendFileSync_def)

lemma readJobs_written: "readJobs cfg (writeJobs cfg jobs w) = jobs"
  unfolding readJobs_def writeJobs_def
  by (rule read_store_written [where enc = job_to_json]) (simp_all add: job_of_json_to_json)

lemma readApplications_written: "readApplications cfg (writeApplications cfg apps w) = apps"
  unfolding readApplications_def writeApplications_def
  by (rule read_store_written [where enc = application_to_json])
     (simp_all add: application_of_json_to_json)

lemma readJobs_cong: "fs w (JOBS_FILE cfg) = fs w' (JOBS_FILE cfg) \<Longrightarrow> readJobs cfg w = readJobs cfg w'"
  unfolding readJobs_def by (rule read_store_cong)

lemma readApplications_cong:
  "fs w (APPS_FILE cfg) = fs w' (APPS_FILE cfg) \<Longrightarrow> readApplications cfg w = readApplications cfg w'"
  unfolding readApplications_def by (rule read_store_cong)

lemma fs_writeJobs [simp]:
  "fs (writeJobs cfg jobs w) = (fs w)(JOBS_FILE cfg \<mapsto> stringify 2 0 (JArr (map job_to_json jobs)))"
  by (simp add: writeJobs_def)

lemma fs_writeApplications [simp]:
  "fs (writeApplications cfg apps w)
     = (fs w)(APPS_FILE cfg \<mapsto> stringify 2 0 (JArr (map application_to_json apps)))"
  by (simp add: writeApplications_def)

lemma net_console_write [simp]:
  "net (writeJobs cfg jobs w) = net w" "console (writeJobs cfg jobs w) = console w"
  "net (writeApplications cfg apps w) = net w" "console (writeApplications cfg apps w) = console w"
  by (simp_all add: writeJobs_def writeApplications_def)

lemma find_None_set: "(find P xs = None) = (\<forall>x \<in> set xs. \<not> P x)"
  by (induction xs) auto

lemma upload_single_frame:
  "readJobs cfg (snd (upload_single cfg now part w)) = readJobs cfg w"
  "readApplications cfg (snd (upload_single cfg now part w)) = readApplications cfg w"
  by (auto simp: upload_single_def Let_def upload_path_not_data upload_path_not_data [symmetric]
      intro!: readJobs_cong readApplications_cong split: option.splits sum.splits)

lemma upload_single_saved:
  "fileFilter file = Inr True \<Longrightarrow> length (content file) \<le> MAX_RESUME_BYTES \<Longrightarrow>
   upload_single cfg now (Some file) w =
     ((None, Some \<lparr>file_path = path_join (uploadsDir cfg) (storage_filename now file)\<rparr>),
      writeFileSync (path_join (uploadsDir cfg) (storage_filename now file)) (content file) w)"
  by (simp add: upload_single_def Let_def)

lemma post_jobs_apply_not_found:
  assumes "\<forall>j \<in> set (readJobs cfg w). js_String (job_id j) \<noteq> params_id rq"
  shows "post_jobs_apply cfg rq w =
     (Status 404 ''Job not found'', snd (upload_single cfg (upload_now rq) (resume_part rq) w))"
proof -
  obtain err upl w1 where u: "upload_single cfg (upload_now rq) (resume_part rq) w = ((err, upl), w1)"
    by (metis prod.exhaust)
  have "readJobs cfg w1 = readJobs cfg w"
    using upload_single_frame(1) [of cfg "upload_now rq" "resume_part rq" w] u by simp
  then have "find (\<lambda>j. js_String (job_id j) = params_id rq) (readJobs cfg w1) = None"
    using assms by (simp add: find_None_set)
  then show ?thesis
    by (simp add: post_jobs_apply_def u apply_callback_def)
qed

lemma remove_upload_saved:
  "file_path f \<noteq> [] \<Longrightarrow> fs w (file_path f) = Some d \<Longrightarrow>
   remove_upload (Some f) w = unlinkSync (file_path f) w"
  by (simp add: remove_upload_def existsSync_def)

lemma readApplications_unlink_upload:
  "readApplications cfg (unlinkSync (path_join (uploadsDir cfg) fname) w) = readApplications cfg w"
  by (rule readApplications_cong) (simp add: upload_path_not_data [symmetric])

lemma remove_resume_fs:
  "fs (remove_resume cfg r w) =
     (if truthy r then (fs w)(resume_full_path cfg (the r) := None) else fs w)"
  by (auto simp: remove_resume_def Let_def existsSync_def)

lemma remove_resume_other [simp]:
  "net (remove_resume cfg r w) = net w" "console (remove_resume cfg r w) = console w"
  by (simp_all add: remove_resume_def Let_def)

lemma remove_resume_gone: "fs w p = None \<Longrightarrow> fs (remove_resume cfg r w) p = None"
  by (simp add: remove_resume_fs)

lemma remove_resume_target:
  "resume_target cfg a = Some p \<Longrightarrow> fs (remove_resume cfg (resume a) w) p = None"
  by (auto simp: remove_resume_fs resume_target_def split: if_splits)

lemma foldl_drop_or_keep_Cons:
  "foldl (drop_or_keep cfg P) (acc, w) (x # xs) =
     (if P x then foldl (drop_or_keep cfg P) (acc, remove_resume cfg (resume x) w) xs
      else foldl (drop_or_keep cfg P) (acc @ [x], w) xs)"
  by (simp add: drop_or_keep_def)

lemma foldl_drop_or_keep_fst:
  "fst (foldl (drop_or_keep cfg P) (acc, w) apps) = acc @ filter (\<lambda>a. \<not> P a) apps"
  by (induction apps arbitrary: acc w) (simp_all add: foldl_drop_or_keep_Cons del: foldl_Cons)

lemma foldl_drop_or_keep_gone:
  "fs w p = None \<Longrightarrow> fs (snd (foldl (drop_or_keep cfg P) (acc, w) apps)) p = None"
  by (induction apps arbitrary: acc w)
     (simp_all add: foldl_drop_or_keep_Cons remove_resume_gone del: foldl_Cons)

lemma foldl_drop_or_keep_removed:
  "a \<in> set apps \<Longrightarrow> P a \<Longrightarrow> resume_target cfg a = Some p \<Longrightarrow>
   fs (snd (foldl (drop_or_keep cfg P) (acc, w) apps)) p = None"
proof (induction apps arbitrary: acc w)
  case Nil
  then show ?case by simp
next
  case (Cons x xs)
  show ?case
  proof (cases "x = a")
    case True
    then show ?thesis
      using Cons.prems
      by (simp add: foldl_drop_or_keep_Cons foldl_drop_or_keep_gone remove_resume_target
            del: foldl_Cons)
  next
    case False
    then have "a \<in> set xs" using Cons.prems by simp
    then show ?thesis
      using Cons.IH Cons.prems by (simp add: foldl_drop_or_keep_Cons del: foldl_Cons)
  qed
qed

lemma foldl_drop_or_keep_other [simp]:
  "net (snd (foldl (drop_or_keep cfg P) (acc, w) apps)) = net w"
  "console (snd (foldl (drop_or_keep cfg P) (acc, w) apps)) = console w"
  by (induction apps arbitrary: acc w) (simp_all add: foldl_drop_or_keep_Cons del: foldl_Cons)

lemma readApplications_writeJobs [simp]:
  "readApplications cfg (writeJobs cfg jobs w) = readApplications cfg w"
  by (rule readApplications_cong) (simp add: data_paths_distinct)

lemma readJobs_writeApplications [simp]:
  "readJobs cfg (writeApplications cfg apps w) = readJobs cfg w"
  by (rule readJobs_cong) (simp add: data_paths_distinct)



lemma sendEmailJS_fs [simp]: "fs (snd (sendEmailJS cfg t ps fr w)) = fs w"
  by (simp add: sendEmailJS_def Let_def split: fetch_result.splits)


lemma logMailAttempt_simps [simp]:
  "fs (logMailAttempt cfg ts e w) =
     (fs w)(MAIL_LOG cfg \<mapsto> or_empty (fs w (MAIL_LOG cfg)) @ mail_line ts e)"
  "net (logMailAttempt cfg ts e w) = net w"
  "console (logMailAttempt cfg ts e w) = console w"
  by (simp_all add: logMailAttempt_def or_empty_def split: option.splits)



lemma notify_rejection_fs:
  "p \<noteq> MAIL_LOG cfg \<Longrightarrow> fs (notify_rejection cfg ts fr a jobTitle w) p = fs w p"
  by (cases "sendEmailJS cfg (EMAILJS_TEMPLATE_REJECT cfg) (reject_templateParams cfg a jobTitle) fr w")
     (auto simp: notify_rejection_def Let_def split: sum.splits
           dest: arg_cong [where f = "\<lambda>r. fs (snd r)"])

lemma notify_confirmation_fs:
  "p \<noteq> MAIL_LOG cfg \<Longrightarrow> fs (notify_confirmation cfg rq job a w) p = fs w p"
  by (cases "sendEmailJS cfg (EMAILJS_TEMPLATE_CONFIRM cfg)
        (confirm_templateParams cfg job (name a) (email a) (phone a) (cover a)) (mail_api rq) w")
     (auto simp: notify_confirmation_def Let_def split: sum.splits
           dest: arg_cong [where f = "\<lambda>r. fs (snd r)"])




lemma findIndex_None: "(findIndex P xs = None) = (\<forall>x \<in> set xs. \<not> P x)"
  by (induction xs) auto




lemma readApplications_console_log [simp]:
  "readApplications cfg (console_log args w) = readApplications cfg w"
  "readApplications cfg (console_error args w) = readApplications cfg w"
  by (rule readApplications_cong, simp)+

lemma apply_callback_accepted:
  assumes "find (\<lambda>j. js_String (job_id j) = params_id rq) (readJobs cfg w) = Some job"
      and "accepted_submission cfg rq f w"
  shows "apply_callback cfg rq None (Some f) w =
     (RenderApplySuccess job (submitted_application rq job f),
      notify_confirmation cfg rq job (submitted_application rq job f)
        (writeApplications cfg (readApplications cfg w @ [submitted_application rq job f]) w))"
  using assms
  by (auto simp: apply_callback_def accepted_submission_def submitted_application_def Let_def
      split: option.splits)

lemma readApplications_logMailAttempt [simp]:
  "readApplications cfg (logMailAttempt cfg ts e w) = readApplications cfg w"
  by (rule readApplications_cong) (simp add: data_paths_distinct)


lemma remove_upload_other [simp]:
  "net (remove_upload file w) = net w" "console (remove_upload file w) = console w"
  by (simp_all add: remove_upload_def split: option.splits)



lemma set_collapse_ws: "set (collapse_ws s) \<subseteq> insert (CHR ''_'') (set s)"
proof (induction s rule: collapse_ws.induct)
  case 1
  then show ?case by simp
next
  case (2 c cs)
  show ?case
  proof (cases "js_space c")
    case True
    have "set (dropWhile js_space cs) \<subseteq> set cs" by (rule set_dropWhileD [THEN subsetI])
    then show ?thesis using 2(1) [OF True] True by auto
  next
    case False
    then show ?thesis using 2(2) [OF False] by auto
  qed
qed

lemma set_show_int: "c \<in> set (show_int n) \<Longrightarrow> c = CHR ''-'' \<or> is_digit c"
  by (auto simp: show_int_def show_nat_digits split: if_splits)

lemma storage_filename_plain:
  assumes "CHR ''/'' \<notin> set (originalname file)" "backslash \<notin> set (originalname file)"
  shows "CHR ''/'' \<notin> set (storage_filename now file)"
    and "backslash \<notin> set (storage_filename now file)"
    and "storage_filename now file \<noteq> []"
proof -
  have d: "\<not> is_digit (CHR ''/'')" "\<not> is_digit backslash"
    by (simp_all add: is_digit_def backslash_def)
  have c: "CHR ''/'' \<notin> set (collapse_ws (originalname file))"
    "backslash \<notin> set (collapse_ws (originalname file))"
    using assms set_collapse_ws [of "originalname file"] by (auto simp: backslash_def)
  show "CHR ''/'' \<notin> set (storage_filename now file)"
    using c(1) d(1) set_show_int [of "CHR ''/''" now]
    by (auto simp: storage_filename_def js_String_def)
  show "backslash \<notin> set (storage_filename now file)"
    using c(2) d(2) set_show_int [of backslash now]
    by (auto simp: storage_filename_def js_String_def backslash_def)
  show "storage_filename now file \<noteq> []"
    by (simp add: storage_filename_def)
qed

lemma basename_part_join:
  assumes "fn \<noteq> []" "CHR ''/'' \<notin> set fn"
  shows "basename_part (path_join d fn) = fn"
proof -
  have r: "rev (path_join d fn) = rev fn @ CHR ''/'' # rev d"
    using assms(1) by (simp add: path_join_def)
  obtain x xs where x: "rev fn = x # xs" using assms(1) by (cases "rev fn") auto
  then have "x \<in> set fn" by (metis list.set_intros(1) set_rev)
  then have "x \<noteq> CHR ''/''" using assms(2) by auto
  then have dw: "dropWhile (\<lambda>c. c = CHR ''/'') (rev fn @ CHR ''/'' # rev d) = rev fn @ CHR ''/'' # rev d"
    by (simp add: x)
  have "c \<noteq> CHR ''/''" if "c \<in> set (rev fn)" for c using assms(2) that by auto
  then have "takeWhile (\<lambda>c. c \<noteq> CHR ''/'') (rev fn @ CHR ''/'' # rev d)
      = rev fn @ takeWhile (\<lambda>c. c \<noteq> CHR ''/'') (CHR ''/'' # rev d)"
    by (rule takeWhile_append2)
  then have tw: "takeWhile (\<lambda>c. c \<noteq> CHR ''/'') (rev fn @ CHR ''/'' # rev d) = rev fn"
    by simp
  show ?thesis by (simp add: basename_part_def r dw tw)
qed

lemma resume_full_path_uploads:
  assumes "backslash \<notin> set fn" "fn \<noteq> []"
  shows "resume_full_path cfg (''/uploads/'' @ fn) = path_join (uploadsDir cfg) fn"
proof -
  have "map (\<lambda>c. if c = backslash then CHR ''/'' else c) fn = fn"
    using assms by (induction fn) auto
  then show ?thesis
    using assms(2) by (simp add: resume_full_path_def path_join_def uploadsDir_def backslash_def)
qed

lemma readApplications_notify_confirmation [simp]:
  "readApplications cfg (notify_confirmation cfg rq job a w) = readApplications cfg w"
  by (rule readApplications_cong) (simp add: notify_confirmation_fs data_paths_distinct)

lemma accepted_submission_cong:
  "fs w (file_path f) = fs w' (file_path f) \<Longrightarrow>
   accepted_submission cfg rq f w = accepted_submission cfg rq f w'"
  by (simp add: accepted_submission_def)

lemma post_admin_applications_delete_run:
  "post_admin_applications_delete cfg (Some u) ident w =
     (Redirect ''/admin'',
      writeApplications cfg
        (filter (\<lambda>a. js_String (app_id a) \<noteq> ident) (readApplications cfg w))
        (snd (foldl (drop_or_keep cfg (\<lambda>a. js_String (app_id a) = ident)) ([], w)
               (readApplications cfg w))))"
proof -
  let ?P = "\<lambda>a. js_String (app_id a) = ident"
  obtain rem w2 where f: "foldl (drop_or_keep cfg ?P) ([], w) (readApplications cfg w) = (rem, w2)"
    by (metis prod.exhaust)
  have "rem = filter (\<lambda>a. \<not> ?P a) (readApplications cfg w)"
    using foldl_drop_or_keep_fst [of cfg ?P "[]" w "readApplications cfg w"] f by simp
  then show ?thesis
    using f by (simp add: post_admin_applications_delete_def)
qed

section \<open>Facts about the worked example\<close>

lemma example_paths:
  "JOBS_FILE example_cfg = ''/srv/site/data/jobs.json''"
  "APPS_FILE example_cfg = ''/srv/site/data/applications.json''"
  "MAIL_LOG example_cfg = ''/srv/site/data/email-log.jsonl''"
  "uploadsDir example_cfg = ''/srv/site/uploads''"
  by (simp_all add: JOBS_FILE_def APPS_FILE_def MAIL_LOG_def uploadsDir_def path_join_def example_cfg_def)

lemma ext_examples:
  "toLowerCase (extname ''cv.pdf'') = ''.pdf''"
  "toLowerCase (extname ''my cv.PDF'') = ''.pdf''"
  by code_simp+

lemma small_resume_accepted: "fileFilter small_resume = Inr True"
  by (simp add: fileFilter_def small_resume_def ext_examples allowedExt_def)

lemma good_resume_accepted: "fileFilter good_resume = Inr True"
  by (simp add: fileFilter_def good_resume_def ext_examples allowedExt_def)

lemma name_examples:
  "js_String 11 = ''11''"
  "js_String 7 = ''7''"
  "js_String 9 = ''9''"
  "collapse_ws ''my cv.PDF'' = ''my_cv.PDF''"
  "collapse_ws ''cv.pdf'' = ''cv.pdf''"
  by code_simp+

lemma good_resume_filename: "storage_filename 11 good_resume = ''11-my_cv.PDF''"
  by (simp add: storage_filename_def good_resume_def name_examples del: collapse_ws.simps)


lemma example_mail_paths:
  "JOBS_FILE example_mail_cfg = ''/srv/site/data/jobs.json''"
  "APPS_FILE example_mail_cfg = ''/srv/site/data/applications.json''"
  "MAIL_LOG example_mail_cfg = ''/srv/site/data/email-log.jsonl''"
  "uploadsDir example_mail_cfg = ''/srv/site/uploads''"
  by (simp_all add: JOBS_FILE_def APPS_FILE_def MAIL_LOG_def uploadsDir_def path_join_def
        example_mail_cfg_def)

lemma example_stores:
  "readJobs example_cfg example_world = [example_job]"
  "readApplications example_cfg example_world = [example_application]"
  "readJobs example_mail_cfg example_world = [example_job]"
  "readApplications example_mail_cfg example_world = [example_application]"
proof -
  show j: "readJobs example_cfg example_world = [example_job]"
    by (simp add: example_world_def readJobs_written)
  show a: "readApplications example_cfg example_world = [example_application]"
    by (simp add: example_world_def readApplications_written)
  show "readJobs example_mail_cfg example_world = [example_job]"
    using j by (simp add: readJobs_def example_paths example_mail_paths)
  show "readApplications example_mail_cfg example_world = [example_application]"
    using a by (simp add: readApplications_def example_paths example_mail_paths)
qed

lemma example_resume_path:
  "resume_full_path example_cfg ''/uploads/5-cv.pdf'' = ''/srv/site/uploads/5-cv.pdf''"
  "resume_full_path example_mail_cfg ''/uploads/5-cv.pdf'' = ''/srv/site/uploads/5-cv.pdf''"
  by code_simp+

lemma example_resume_target:
  "resume_target example_cfg example_application = Some ''/srv/site/uploads/5-cv.pdf''"
  "resume_target example_mail_cfg example_application = Some ''/srv/site/uploads/5-cv.pdf''"
  by (simp_all add: resume_target_def example_application_def truthy_def example_resume_path)

lemma example_upload_paths:
  "path_join (uploadsDir example_cfg) (storage_filename 11 good_resume) = ''/srv/site/uploads/11-my_cv.PDF''"
  "path_join (uploadsDir example_cfg) ''11-cv.pdf'' = ''/srv/site/uploads/11-cv.pdf''"
  by (simp_all add: example_paths path_join_def good_resume_filename)



lemma example_found:
  "findIndex (\<lambda>a. js_String (app_id a) = ''9'') [example_application] = Some 0"
  "find (\<lambda>j. js_String (job_id j) = ''7'') [example_job] = Some example_job"
  "find (\<lambda>j. js_String (job_id j) = ''8'') [example_job] = None"
  "find (\<lambda>j. job_id j = jobId example_application) [example_job] = Some example_job"
proof -
  have "js_String 7 \<noteq> ''8''" by code_simp
  then show "find (\<lambda>j. js_String (job_id j) = ''8'') [example_job] = None"
    by (simp add: example_job_def)
qed (simp_all add: example_application_def example_job_def name_examples)

lemma example_ids:
  "js_String (job_id example_job) = ''7''" "js_String (app_id example_application) = ''9''"
  "js_String (jobId example_application) = ''7''"
  by (simp_all add: example_job_def example_application_def name_examples)


lemma example_form_checks:
  "emailRe_test ''ravi@example.com''" "phoneRe_test ''+91 98765 43210''"
  by code_simp+


lemma small_resume_upload:
  "upload_single cfg 11 (Some small_resume) w =
     ((None, Some \<lparr>file_path = path_join (uploadsDir cfg) ''11-cv.pdf''\<rparr>),
      writeFileSync (path_join (uploadsDir cfg) ''11-cv.pdf'') (content small_resume) w)"
proof -
  have "length (content small_resume) \<le> MAX_RESUME_BYTES"
    by (simp add: small_resume_def MAX_RESUME_BYTES_def)
  moreover have "storage_filename 11 small_resume = ''11-cv.pdf''"
    by (simp add: storage_filename_def small_resume_def name_examples del: collapse_ws.simps)
  ultimately show ?thesis
    using upload_single_saved [OF small_resume_accepted, of cfg 11 w] by simp
qed


section \<open>The upload filter\<close>

text \<open>
  C7. The filter accepts a file exactly when the lowercased extension of its original
  name is one of \<open>.pdf\<close>, \<open>.doc\<close>, \<open>.docx\<close>, whatever content type is declared: the
  extension alone suffices, and any other extension is rejected with the file-type error
  even when the content type is in the allow-list.
\<close>

theorem fileFilter_extension_only:
  "(fileFilter file = Inr True) =
     (toLowerCase (extname (originalname file)) \<in> {''.pdf'', ''.doc'', ''.docx''})
   \<and> (fileFilter file = Inl invalid_type_msg) =
     (toLowerCase (extname (originalname file)) \<notin> {''.pdf'', ''.doc'', ''.docx''})
   \<and> fileFilter (file\<lparr>mimetype := m\<rparr>) = fileFilter file"
  by (simp add: fileFilter_def allowedExt_def Let_def)

theorem fileFilter_extension_only_witness:
  "fileFilter good_resume = Inr True \<and> mimetype good_resume \<notin> set allowedMime"
  using fileFilter_extension_only [of good_resume "mimetype good_resume"]
  by (simp add: good_resume_def ext_examples allowedMime_def)

section \<open>The job store\<close>

text \<open>
  C9. Writing a list of jobs and reading the job store back returns the same jobs, with
  the same field values, in the same order.
\<close>

theorem readJobs_writeJobs_roundtrip:
  "readJobs cfg (writeJobs cfg jobs w) = jobs
   \<and> length (readJobs cfg (writeJobs cfg jobs w)) = length jobs"
  by (simp add: readJobs_written)

theorem readJobs_writeJobs_roundtrip_witness:
  "readJobs example_cfg (writeJobs example_cfg [example_job, example_job\<lparr>job_id := 8\<rparr>] empty_world)
     = [example_job, example_job\<lparr>job_id := 8\<rparr>]"
  using readJobs_writeJobs_roundtrip [of example_cfg "[example_job, example_job\<lparr>job_id := 8\<rparr>]" empty_world]
  by simp

section \<open>Admin routes without a session\<close>

text \<open>
  C6. Without a session user, each of the four mutating admin routes answers
  403 \<open>Forbidden\<close> and returns the world as it was: both stores and every file unchanged.
\<close>

theorem unauthenticated_admin_post_forbidden:
  "post_admin_jobs cfg None b now ts w = (Status 403 ''Forbidden'', w)
   \<and> post_admin_jobs_delete cfg None ident w = (Status 403 ''Forbidden'', w)
   \<and> post_admin_applications_delete cfg None ident w = (Status 403 ''Forbidden'', w)
   \<and> post_admin_applications_reject cfg None ident ts fr w = (Status 403 ''Forbidden'', w)"
  by (simp add: post_admin_jobs_def post_admin_jobs_delete_def post_admin_applications_delete_def
        post_admin_applications_reject_def)

theorem unauthenticated_admin_post_forbidden_witness:
  "post_admin_jobs_delete example_cfg None ''7'' example_world = (Status 403 ''Forbidden'', example_world)
   \<and> post_admin_applications_reject example_cfg None ''7'' ''2024-01-04T00:00:00.000Z'' FetchOk example_world
       = (Status 403 ''Forbidden'', example_world)"
  using unauthenticated_admin_post_forbidden
    [where cfg = example_cfg and w = example_world and ident = "''7''"
       and ts = "''2024-01-04T00:00:00.000Z''" and fr = FetchOk]
  by simp

section \<open>Applying for a job that is not in the store\<close>



text \<open>
  C2, at a failing input: a 100-byte \<open>cv.pdf\<close> sent to the apply route of job 8, which
  is not in the store. The route answers 404 and the file the middleware stored is left
  in the uploads directory.
\<close>

theorem small_resume_for_unknown_job_stays_on_disk:
  "length (content small_resume) < MIN_RESUME_BYTES
   \<and> fs example_world ''/srv/site/uploads/11-cv.pdf'' = None
   \<and> fst (post_jobs_apply example_cfg
            (example_request\<lparr>params_id := ''8'', resume_part := Some small_resume\<rparr>) example_world)
       = Status 404 ''Job not found''
   \<and> fs (snd (post_jobs_apply example_cfg
            (example_request\<lparr>params_id := ''8'', resume_part := Some small_resume\<rparr>) example_world))
        ''/srv/site/uploads/11-cv.pdf'' = Some (content small_resume)"
proof -
  let ?rq = "example_request\<lparr>params_id := ''8'', resume_part := Some small_resume\<rparr>"
  have "find (\<lambda>j. js_String (job_id j) = ''8'') (readJobs example_cfg example_world) = None"
    by (simp add: example_stores example_found example_ids)
  then have "\<forall>j \<in> set (readJobs example_cfg example_world). js_String (job_id j) \<noteq> params_id ?rq"
    by (simp add: find_None_set)
  then have "post_jobs_apply example_cfg ?rq example_world =
     (Status 404 ''Job not found'',
      snd (upload_single example_cfg (upload_now ?rq) (resume_part ?rq) example_world))"
    by (rule post_jobs_apply_not_found)
  moreover have "upload_now ?rq = 11" "resume_part ?rq = Some small_resume"
    by (simp_all add: example_request_def)
  moreover have "fs example_world ''/srv/site/uploads/11-cv.pdf'' = None"
    by (simp add: example_world_def example_paths empty_world_def)
  moreover have "length (content small_resume) < MIN_RESUME_BYTES"
    by (simp add: small_resume_def MIN_RESUME_BYTES_def)
  ultimately show ?thesis
    by (simp add: small_resume_upload example_upload_paths)
qed

section \<open>Validation failures after the upload\<close>

text \<open>
  C3. For a submission to an existing job whose resume file is already stored in the
  uploads directory, every validation failure (an upload error reported late, a missing
  field, an invalid email or phone, an undersized resume) removes the stored file,
  renders the apply form again with an error message and the submitted name, email,
  phone and cover letter, and appends no application.
\<close>

theorem apply_validation_failure_removes_upload:
  assumes job: "find (\<lambda>j. js_String (job_id j) = params_id rq) (readJobs cfg w) = Some job"
      and path: "file_path f = path_join (uploadsDir cfg) fname"
      and saved: "fs w (file_path f) = Some data"
      and failure: "err \<noteq> None
          \<or> \<not> truthy (body_name (req_body rq)) \<or> \<not> truthy (body_email (req_body rq))
          \<or> \<not> truthy (body_phone (req_body rq)) \<or> \<not> truthy (body_cover (req_body rq))
          \<or> \<not> emailRe_test (or_empty (body_email (req_body rq)))
          \<or> \<not> phoneRe_test (or_empty (body_phone (req_body rq)))
          \<or> length data < MIN_RESUME_BYTES"
  shows "(\<exists>msg. msg \<noteq> [] \<and>
            fst (apply_callback cfg rq err (Some f) w) =
              RenderApply job (Some msg)
                (Some \<lparr>form_name = or_empty (body_name (req_body rq)),
                       form_email = or_empty (body_email (req_body rq)),
                       form_phone = or_empty (body_phone (req_body rq)),
                       form_cover = or_empty (body_cover (req_body rq))\<rparr>))
       \<and> fs (snd (apply_callback cfg rq err (Some f) w)) (file_path f) = None
       \<and> readApplications cfg (snd (apply_callback cfg rq err (Some f) w)) = readApplications cfg w"
proof -
  have ne: "file_path f \<noteq> []" using path by (simp add: upload_path_not_data)
  have rm: "remove_upload (Some f) w = unlinkSync (file_path f) w"
    using ne saved by (rule remove_upload_saved)
  have ra: "readApplications cfg (unlinkSync (file_path f) w) = readApplications cfg w"
    unfolding path by (rule readApplications_unlink_upload)
  have the_email: "truthy (body_email (req_body rq)) \<Longrightarrow>
      the (body_email (req_body rq)) = or_empty (body_email (req_body rq))"
    by (cases "body_email (req_body rq)") (simp_all add: truthy_def or_empty_def)
  have the_phone: "truthy (body_phone (req_body rq)) \<Longrightarrow>
      the (body_phone (req_body rq)) = or_empty (body_phone (req_body rq))"
    by (cases "body_phone (req_body rq)") (simp_all add: truthy_def or_empty_def)
  show ?thesis
  proof (cases err)
    case (Some msg)
    then show ?thesis
      by (simp add: apply_callback_def job Let_def rm ra)
  next
    case None
    note e = this
    show ?thesis
    proof (cases "truthy (body_name (req_body rq)) \<and> truthy (body_email (req_body rq))
        \<and> truthy (body_phone (req_body rq)) \<and> truthy (body_cover (req_body rq))")
      case False
      then show ?thesis
        by (auto simp add: apply_callback_def job Let_def rm ra e)
    next
      case True
      note t = this
      show ?thesis
      proof (cases "emailRe_test (or_empty (body_email (req_body rq)))")
        case False
        then show ?thesis
          using t by (simp add: apply_callback_def job Let_def rm ra e the_email)
      next
        case True
        note em = this
        show ?thesis
        proof (cases "phoneRe_test (or_empty (body_phone (req_body rq)))")
          case False
          then show ?thesis
            using t em by (simp add: apply_callback_def job Let_def rm ra e the_email the_phone)
        next
          case True
          then have "length data < MIN_RESUME_BYTES"
            using failure e t em by simp
          then show ?thesis
            using t em True
            by (simp add: apply_callback_def job Let_def ra e the_email the_phone saved)
        qed
      qed
    qed
  qed
qed

theorem apply_validation_failure_removes_upload_witness:
  "fs (snd (apply_callback example_cfg (example_request\<lparr>resume_part := Some small_resume\<rparr>) None
         (Some \<lparr>file_path = ''/srv/site/uploads/11-cv.pdf''\<rparr>)
         (writeFileSync ''/srv/site/uploads/11-cv.pdf'' (content small_resume) example_world)))
      ''/srv/site/uploads/11-cv.pdf'' = None
   \<and> readApplications example_cfg
        (snd (apply_callback example_cfg (example_request\<lparr>resume_part := Some small_resume\<rparr>) None
           (Some \<lparr>file_path = ''/srv/site/uploads/11-cv.pdf''\<rparr>)
           (writeFileSync ''/srv/site/uploads/11-cv.pdf'' (content small_resume) example_world)))
      = [example_application]"
proof -
  let ?w = "writeFileSync ''/srv/site/uploads/11-cv.pdf'' (content small_resume) example_world"
  let ?rq = "example_request\<lparr>resume_part := Some small_resume\<rparr>"
  let ?f = "\<lparr>file_path = ''/srv/site/uploads/11-cv.pdf''\<rparr>"
  have rj: "readJobs example_cfg ?w = readJobs example_cfg example_world"
    by (rule readJobs_cong) (simp add: example_paths)
  have ra: "readApplications example_cfg ?w = readApplications example_cfg example_world"
    by (rule readApplications_cong) (simp add: example_paths)
  have job: "find (\<lambda>j. js_String (job_id j) = params_id ?rq) (readJobs example_cfg ?w) = Some example_job"
    by (simp add: rj example_stores example_request_def) (simp add: example_job_def name_examples)
  have path: "file_path ?f = path_join (uploadsDir example_cfg) ''11-cv.pdf''"
    by (simp add: example_upload_paths)
  have saved: "fs ?w (file_path ?f) = Some (content small_resume)"
    by simp
  have "length (content small_resume) < MIN_RESUME_BYTES"
    by (simp add: small_resume_def MIN_RESUME_BYTES_def)
  then have failure: "None \<noteq> (None :: string option)
          \<or> \<not> truthy (body_name (req_body ?rq)) \<or> \<not> truthy (body_email (req_body ?rq))
          \<or> \<not> truthy (body_phone (req_body ?rq)) \<or> \<not> truthy (body_cover (req_body ?rq))
          \<or> \<not> emailRe_test (or_empty (body_email (req_body ?rq)))
          \<or> \<not> phoneRe_test (or_empty (body_phone (req_body ?rq)))
          \<or> length (content small_resume) < MIN_RESUME_BYTES"
    by simp
  show ?thesis
    using apply_validation_failure_removes_upload [OF job path saved failure]
    by (simp add: ra example_stores)
qed

section \<open>Deleting a job\<close>



section \<open>Rejecting an application\<close>



section \<open>A mailer that is not configured\<close>



section \<open>The template parameters sent to the mail API\<close>




section \<open>Further properties of the routes\<close>

text \<open>
  An accepted submission (the job exists, the form passes the checks, the resume passes
  the filter and lies between the two size limits, its name has no path separator) is
  answered with the success page; one application is appended, for that job, and its
  resume reference resolves to the stored file, which is on disk with the uploaded bytes.
\<close>

theorem accepted_submission_is_stored:
  assumes job: "find (\<lambda>j. js_String (job_id j) = params_id rq) (readJobs cfg w) = Some job"
      and part: "resume_part rq = Some file" "fileFilter file = Inr True"
      and size: "MIN_RESUME_BYTES \<le> length (content file)" "length (content file) < MAX_RESUME_BYTES"
      and plain: "CHR ''/'' \<notin> set (originalname file)" "backslash \<notin> set (originalname file)"
      and fields: "truthy (body_name (req_body rq))" "truthy (body_email (req_body rq))"
        "truthy (body_phone (req_body rq))" "truthy (body_cover (req_body rq))"
        "emailRe_test (the (body_email (req_body rq)))"
        "phoneRe_test (the (body_phone (req_body rq)))"
  shows "\<exists>a. fst (post_jobs_apply cfg rq w) = RenderApplySuccess job a
      \<and> readApplications cfg (snd (post_jobs_apply cfg rq w)) = readApplications cfg w @ [a]
      \<and> jobId a = job_id job
      \<and> resume_target cfg a
          = Some (path_join (uploadsDir cfg) (storage_filename (upload_now rq) file))
      \<and> fs (snd (post_jobs_apply cfg rq w))
            (path_join (uploadsDir cfg) (storage_filename (upload_now rq) file))
          = Some (content file)"
proof -
  let ?fn = "storage_filename (upload_now rq) file"
  let ?p = "path_join (uploadsDir cfg) ?fn"
  let ?f = "\<lparr>file_path = ?p\<rparr>"
  let ?w1 = "writeFileSync ?p (content file) w"
  let ?a = "submitted_application rq job ?f"
  note fn = storage_filename_plain [OF plain, of "upload_now rq"]
  have up: "upload_single cfg (upload_now rq) (resume_part rq) w = ((None, Some ?f), ?w1)"
    using part size by (simp add: upload_single_saved)
  have rj: "readJobs cfg ?w1 = readJobs cfg w"
    by (rule readJobs_cong) (simp add: upload_path_not_data [symmetric])
  have ra: "readApplications cfg ?w1 = readApplications cfg w"
    by (rule readApplications_cong) (simp add: upload_path_not_data [symmetric])
  have acc: "accepted_submission cfg rq ?f ?w1"
    using fields size by (simp add: accepted_submission_def)
  have run: "post_jobs_apply cfg rq w =
     (RenderApplySuccess job ?a,
      notify_confirmation cfg rq job ?a (writeApplications cfg (readApplications cfg ?w1 @ [?a]) ?w1))"
    using apply_callback_accepted [of rq cfg ?w1 job ?f] job acc
    by (simp add: post_jobs_apply_def up rj)
  have "basename_part ?p = ?fn"
    using fn by (simp add: basename_part_join)
  then have r: "resume ?a = Some (''/uploads/'' @ ?fn)"
    by (simp add: submitted_application_def)
  have tgt: "resume_target cfg ?a = Some ?p"
    unfolding resume_target_def r
    using resume_full_path_uploads [OF fn(2) fn(3), of cfg] by (simp add: truthy_def)
  have kept: "fs (snd (post_jobs_apply cfg rq w)) ?p = Some (content file)"
    by (simp add: run notify_confirmation_fs upload_path_not_data)
  have "readApplications cfg (snd (post_jobs_apply cfg rq w)) = readApplications cfg w @ [?a]"
    by (simp add: run readApplications_written ra)
  moreover have "jobId ?a = job_id job" by (simp add: submitted_application_def)
  ultimately show ?thesis
    using tgt kept run by auto
qed

theorem accepted_submission_is_stored_witness:
  "fs (snd (post_jobs_apply example_cfg example_request example_world))
      ''/srv/site/uploads/11-my_cv.PDF'' = Some (replicate 60000 (CHR ''x''))
   \<and> length (readApplications example_cfg
        (snd (post_jobs_apply example_cfg example_request example_world))) = 2"
proof -
  have job: "find (\<lambda>j. js_String (job_id j) = params_id example_request)
      (readJobs example_cfg example_world) = Some example_job"
    by (simp add: example_stores example_request_def example_ids)
  have part: "resume_part example_request = Some good_resume"
    by (simp add: example_request_def)
  have size: "MIN_RESUME_BYTES \<le> length (content good_resume)"
    "length (content good_resume) < MAX_RESUME_BYTES"
    by (simp_all add: good_resume_def MIN_RESUME_BYTES_def MAX_RESUME_BYTES_def)
  have plain: "CHR ''/'' \<notin> set (originalname good_resume)"
    "backslash \<notin> set (originalname good_resume)"
    by (simp_all add: good_resume_def backslash_def)
  have fields: "truthy (body_name (req_body example_request))"
    "truthy (body_email (req_body example_request))"
    "truthy (body_phone (req_body example_request))"
    "truthy (body_cover (req_body example_request))"
    "emailRe_test (the (body_email (req_body example_request)))"
    "phoneRe_test (the (body_phone (req_body example_request)))"
    by (simp_all add: example_request_def example_body_def truthy_def example_form_checks)
  obtain a where a:
      "readApplications example_cfg (snd (post_jobs_apply example_cfg example_request example_world))
         = readApplications example_cfg example_world @ [a]"
      "fs (snd (post_jobs_apply example_cfg example_request example_world))
          (path_join (uploadsDir example_cfg)
             (storage_filename (upload_now example_request) good_resume))
         = Some (content good_resume)"
    using accepted_submission_is_stored
      [OF job part good_resume_accepted size plain fields]
    by blast
  have p: "path_join (uploadsDir example_cfg)
             (storage_filename (upload_now example_request) good_resume)
      = ''/srv/site/uploads/11-my_cv.PDF''"
    by (simp add: example_request_def example_upload_paths)
  show ?thesis
    using a unfolding p by (simp add: example_stores good_resume_def)
qed

text \<open>
  A submission whose resume is over the size limit changes nothing: no file, no
  application, no log line. It is answered with 404 for an unknown job and with the
  apply form and an error message otherwise.
\<close>

theorem oversized_resume_is_not_stored:
  assumes "resume_part rq = Some file" "MAX_RESUME_BYTES < length (content file)"
  shows "snd (post_jobs_apply cfg rq w) = w
       \<and> (fst (post_jobs_apply cfg rq w) = Status 404 ''Job not found''
          \<or> (\<exists>job msg form. msg \<noteq> [] \<and>
               fst (post_jobs_apply cfg rq w) = RenderApply job (Some msg) (Some form)))"
proof -
  obtain msg where u: "upload_single cfg (upload_now rq) (resume_part rq) w = ((Some msg, None), w)"
    and m: "msg \<noteq> []"
    using assms
    by (cases "fileFilter file")
       (auto simp: upload_single_def fileFilter_def invalid_type_msg_def Let_def split: if_splits)
  show ?thesis
    using m
    by (cases "find (\<lambda>j. js_String (job_id j) = params_id rq) (readJobs cfg w)")
       (simp_all add: post_jobs_apply_def u apply_callback_def Let_def remove_upload_def)
qed

theorem oversized_resume_is_not_stored_witness:
  "snd (post_jobs_apply example_cfg (example_request\<lparr>resume_part := Some big_resume\<rparr>) example_world)
     = example_world"
proof -
  have "resume_part (example_request\<lparr>resume_part := Some big_resume\<rparr>) = Some big_resume"
    by simp
  moreover have "MAX_RESUME_BYTES < length (content big_resume)"
    by (simp add: big_resume_def MAX_RESUME_BYTES_def)
  ultimately show ?thesis
    using oversized_resume_is_not_stored by blast
qed

text \<open>
  Deleting one application as an authenticated admin removes the records with that id,
  keeps the others in order, and removes the resume files of the removed ones.
\<close>

theorem delete_application_removes_record_and_file:
  "fst (post_admin_applications_delete cfg (Some u) ident w) = Redirect ''/admin''
   \<and> readApplications cfg (snd (post_admin_applications_delete cfg (Some u) ident w))
       = filter (\<lambda>a. js_String (app_id a) \<noteq> ident) (readApplications cfg w)
   \<and> (\<forall>a \<in> set (readApplications cfg w). \<forall>p.
         js_String (app_id a) = ident \<and> resume_target cfg a = Some p \<and> p \<noteq> APPS_FILE cfg
         \<longrightarrow> fs (snd (post_admin_applications_delete cfg (Some u) ident w)) p = None)"
  by (simp add: post_admin_applications_delete_run readApplications_written
        foldl_drop_or_keep_removed)

theorem delete_application_removes_record_and_file_witness:
  "readApplications example_cfg
     (snd (post_admin_applications_delete example_cfg (Some ''admin'') ''9'' example_world)) = []
   \<and> fs (snd (post_admin_applications_delete example_cfg (Some ''admin'') ''9'' example_world))
        ''/srv/site/uploads/5-cv.pdf'' = None"
proof -
  have ne: "''/srv/site/uploads/5-cv.pdf'' \<noteq> APPS_FILE example_cfg"
    by (simp add: example_paths)
  show ?thesis
    using delete_application_removes_record_and_file [of example_cfg "''admin''" "''9''" example_world]
      ne
    by (simp add: example_stores example_resume_target example_ids)
qed

text \<open>
  Creating a job as an authenticated admin appends one job with the submitted texts, the
  clock reading as id, at least one opening and an experience between 0 and 50; the
  application store is not touched.
\<close>

theorem create_job_appends_clamped:
  "fst (post_admin_jobs cfg (Some u) b now ts w) = Redirect ''/admin''
   \<and> (\<exists>j. readJobs cfg (snd (post_admin_jobs cfg (Some u) b now ts w)) = readJobs cfg w @ [j]
        \<and> job_id j = now \<and> title j = jb_title b \<and> location j = jb_location b
        \<and> description j = jb_description b \<and> postedAt j = ts
        \<and> 1 \<le> openings j \<and> 0 \<le> experience j \<and> experience j \<le> 50)
   \<and> readApplications cfg (snd (post_admin_jobs cfg (Some u) b now ts w)) = readApplications cfg w"
  by (simp add: post_admin_jobs_def Let_def readJobs_written)

theorem create_job_appends_clamped_witness:
  "length (readJobs example_cfg
     (snd (post_admin_jobs example_cfg (Some ''admin'') example_job_body 13
             ''2024-01-05T00:00:00.000Z'' example_world))) = 2"
  using create_job_appends_clamped
    [of example_cfg "''admin''" example_job_body 13 "''2024-01-05T00:00:00.000Z''" example_world]
  by (auto simp: example_stores)

end
